theory Spec2Isabelle
  imports Main "HOL-Library.Word" "HOL-Library.Multiset"
begin

section \<open>JavaScript values\<close>

text \<open>
  A JavaScript string is a sequence of 16-bit code units. \<open>js\<close> embeds an
  ASCII literal of the source text.
\<close>

type_synonym jschar = "16 word"
type_synonym jsstring = "jschar list"

definition js :: "string \<Rightarrow> jsstring" where
  "js s = map of_char s"

text \<open>
  The values that \<open>JSON.parse\<close> produces, and \<open>undefined\<close>. Numbers are
  the integers: the runtime computes in IEEE doubles, whose sums and differences of
  whole numbers are exact, and whose decimal text has every digit, as long as operands
  and result are of magnitude at most \<open>2 ^ 53\<close>. Beyond that magnitude the runtime
  rounds and the model does not, so a statement about a number carries that range as
  a hypothesis. An object is the list of its own properties in enumeration order.
\<close>

datatype jsval =
    Undefined
  | Null
  | Bool bool
  | Num int
  | Str jsstring
  | Arr "jsval list"
  | Obj "(jsstring \<times> jsval) list"

text \<open>Every \<open>throw\<close> of the program, by its message.\<close>

datatype conv_error =
    InputNotFound          \<comment> \<open>Input file not found: ...\<close>
  | OutputNotPdf           \<comment> \<open>Output path must be a PDF file\<close>
  | UploadFailed           \<comment> \<open>File upload failed\<close>
  | ConversionNotStarted   \<comment> \<open>Conversion failed to start\<close>
  | FailedOnServer         \<comment> \<open>Conversion failed on server\<close>
  | ConversionTimeout      \<comment> \<open>Conversion timeout\<close>
  | RequestFailed          \<comment> \<open>a rejected HTTP request\<close>
  | RuntimeError           \<comment> \<open>a TypeError of the runtime\<close>

datatype error =
    ItineraryNotFound jsstring     \<comment> \<open>Itinerary with ID ... not found\<close>
  | InvalidRoute jsstring          \<comment> \<open>Invalid or missing route in itinerary ...\<close>
  | InvalidDailyPlans jsstring     \<comment> \<open>Invalid or missing dailyPlans in itinerary ...\<close>
  | NoUserId jsstring              \<comment> \<open>Could not determine user ID for itinerary ...\<close>
  | CompanyInfoNotFound jsstring   \<comment> \<open>Company info not found for user ...\<close>
  | ItinerariesFileNotFound        \<comment> \<open>Itineraries file not found at ...\<close>
  | UsersFileNotFound              \<comment> \<open>Users file not found at ...\<close>
  | InvalidRouteFormat             \<comment> \<open>Invalid route format\<close>
  | RouteTooShort                  \<comment> \<open>Route must contain at least two locations ...\<close>
  | TemplateFileNotFound           \<comment> \<open>Template file not found at ...\<close>
  | MissingParameters              \<comment> \<open>Missing required parameters\<close>
  | TemplateNotFound               \<comment> \<open>Template not found at ...\<close>
  | RenderFailed                   \<comment> \<open>an error of the template library\<close>
  | CaptureFailed                  \<comment> \<open>the screenshot service rejects\<close>
  | TypeError                      \<comment> \<open>the runtime's TypeError\<close>
  | SyntaxError                    \<comment> \<open>JSON.parse on a file that is not JSON\<close>
  | ReadFailed                     \<comment> \<open>reading a directory as a file\<close>
  | ConversionFailed conv_error    \<comment> \<open>DOCX to PDF conversion failed: ...\<close>

subsection \<open>Strings\<close>

fun digit :: "nat \<Rightarrow> jschar" where
  "digit n = of_nat (48 + n)"

fun show_nat :: "nat \<Rightarrow> jsstring" where
  "show_nat n = (if n < 10 then [digit n] else show_nat (n div 10) @ [digit (n mod 10)])"

declare show_nat.simps [simp del]

definition show_int :: "int \<Rightarrow> jsstring" where
  "show_int i = (if i < 0 then js ''-'' @ show_nat (nat (- i)) else show_nat (nat i))"

text \<open>\<open>xs.join(sep)\<close> on an array of strings.\<close>

fun join :: "jsstring \<Rightarrow> jsstring list \<Rightarrow> jsstring" where
  "join sep [] = []"
| "join sep [x] = x"
| "join sep (x # y # ys) = x @ sep @ join sep (y # ys)"

definition startsWith :: "jsstring \<Rightarrow> jsstring \<Rightarrow> bool" where
  "startsWith s p \<longleftrightarrow> take (length p) s = p"

definition endsWith :: "jsstring \<Rightarrow> jsstring \<Rightarrow> bool" where
  "endsWith s p \<longleftrightarrow> length p \<le> length s \<and> drop (length s - length p) s = p"

text \<open>
  \<open>s.split(sep)\<close>: the text is cut at every occurrence of the separator, found left
  to right; an empty separator cuts between all code units.
\<close>

function split_from :: "jsstring \<Rightarrow> jsstring \<Rightarrow> jsstring \<Rightarrow> jsstring list" where
  "split_from sep cur [] = [cur]"
| "split_from sep cur (c # cs) =
     (if sep \<noteq> [] \<and> startsWith (c # cs) sep
      then cur # split_from sep [] (drop (length sep) (c # cs))
      else split_from sep (cur @ [c]) cs)"
  by pat_completeness auto
termination
  by (relation "measure (\<lambda>(sep, cur, s). length s)") auto

definition split :: "jsstring \<Rightarrow> jsstring \<Rightarrow> jsstring list" where
  "split s sep = (if sep = [] then map (\<lambda>c. [c]) s else split_from sep [] s)"

text \<open>The class \<open>\s\<close> of the regular expressions of the runtime.\<close>

definition is_space :: "jschar \<Rightarrow> bool" where
  "is_space c \<longleftrightarrow>
     c \<in> set [0x09, 0x0A, 0x0B, 0x0C, 0x0D, 0x20, 0xA0, 0x1680, 0x2028, 0x2029,
              0x202F, 0x205F, 0x3000, 0xFEFF]
     \<or> (0x2000 \<le> c \<and> c \<le> 0x200A)"

subsection \<open>Coercions and property access\<close>

fun truthy :: "jsval \<Rightarrow> bool" where
  "truthy Undefined = False"
| "truthy Null = False"
| "truthy (Bool b) = b"
| "truthy (Num n) = (n \<noteq> 0)"
| "truthy (Str s) = (s \<noteq> [])"
| "truthy (Arr xs) = True"
| "truthy (Obj ps) = True"

definition nullish :: "jsval \<Rightarrow> bool" where
  "nullish v \<longleftrightarrow> v = Undefined \<or> v = Null"

text \<open>\<open>a || b\<close> and \<open>a && b\<close> on values.\<close>

definition js_or :: "jsval \<Rightarrow> jsval \<Rightarrow> jsval" where
  "js_or a b = (if truthy a then a else b)"

definition js_and :: "jsval \<Rightarrow> jsval \<Rightarrow> jsval" where
  "js_and a b = (if truthy a then b else a)"

text \<open>
  \<open>v.name\<close> on a value that is neither \<open>undefined\<close> nor \<open>null\<close>, for the
  property names this program reads (none of them is an index, \<open>length\<close> or a
  member of a prototype): the own property of an object, \<open>undefined\<close> otherwise.
  \<open>getp_chk\<close> is the read on any value: on \<open>undefined\<close> and \<open>null\<close> the
  runtime throws.
\<close>

fun getp :: "jsval \<Rightarrow> jsstring \<Rightarrow> jsval" where
  "getp (Obj ps) k = (case map_of ps k of Some v \<Rightarrow> v | None \<Rightarrow> Undefined)"
| "getp v k = Undefined"

definition getp_chk :: "jsval \<Rightarrow> jsstring \<Rightarrow> error + jsval" where
  "getp_chk v k = (if nullish v then Inl TypeError else Inr (getp v k))"

text \<open>\<open>a === b\<close> for values of two different documents: objects and arrays are
  compared by reference, so they are never equal.\<close>

fun strict_eq :: "jsval \<Rightarrow> jsval \<Rightarrow> bool" where
  "strict_eq (Arr xs) b = False"
| "strict_eq (Obj ps) b = False"
| "strict_eq a b = (a = b)"

fun isArray :: "jsval \<Rightarrow> bool" where
  "isArray (Arr xs) = True"
| "isArray v = False"

fun isString :: "jsval \<Rightarrow> bool" where
  "isString (Str s) = True"
| "isString v = False"

text \<open>\<open>typeof v === 'object'\<close>.\<close>

fun isObject :: "jsval \<Rightarrow> bool" where
  "isObject Null = True"
| "isObject (Arr xs) = True"
| "isObject (Obj ps) = True"
| "isObject v = False"

text \<open>The conversion to a string of template literals and of \<open>toString()\<close>.\<close>

fun ToString :: "jsval \<Rightarrow> jsstring" where
  "ToString Undefined = js ''undefined''"
| "ToString Null = js ''null''"
| "ToString (Bool b) = (if b then js ''true'' else js ''false'')"
| "ToString (Num n) = show_int n"
| "ToString (Str s) = s"
| "ToString (Arr xs) =
     join (js '','') (map (\<lambda>x. if x = Undefined \<or> x = Null then [] else ToString x) xs)"
| "ToString (Obj ps) = js ''[object Object]''"

text \<open>The properties a \<open>for ... in\<close> loop visits, with their values, and
  \<open>Object.values\<close>.\<close>

fun forin :: "jsval \<Rightarrow> (jsstring \<times> jsval) list" where
  "forin (Obj ps) = ps"
| "forin (Arr xs) = zip (map show_nat [0..<length xs]) xs"
| "forin (Str s) = zip (map show_nat [0..<length s]) (map (\<lambda>c. Str [c]) s)"
| "forin v = []"

definition Object_values :: "jsval \<Rightarrow> jsval list" where
  "Object_values v = map snd (forin v)"

section \<open>The route sent to the map service\<close>

text \<open>
  \<open>route.replace(/\s*-\s*/g, '-')\<close>. The pattern matches at a position exactly
  when the white space from there on is followed by a hyphen; the match then also takes
  the white space after the hyphen. Where it does not match, the code unit is kept and
  the search goes on one position later.
\<close>

function cleanRoute :: "jsstring \<Rightarrow> jsstring" where
  "cleanRoute [] = []"
| "cleanRoute (c # cs) =
     (if startsWith (dropWhile is_space (c # cs)) (js ''-'')
      then js ''-'' @ cleanRoute (dropWhile is_space (tl (dropWhile is_space (c # cs))))
      else c # cleanRoute cs)"
  by pat_completeness auto
termination
proof (relation "measure length")
  show "wf (measure length)" by simp
next
  fix c :: jschar and cs :: jsstring
  assume sw: "startsWith (dropWhile is_space (c # cs)) (js ''-'')"
  have ne: "dropWhile is_space (c # cs) \<noteq> []"
  proof
    assume e: "dropWhile is_space (c # cs) = []"
    from sw show False
      unfolding e by (simp add: startsWith_def js_def)
  qed
  have "length (dropWhile is_space (tl (dropWhile is_space (c # cs))))
          \<le> length (tl (dropWhile is_space (c # cs)))"
    by (rule length_dropWhile_le)
  also have "\<dots> < length (dropWhile is_space (c # cs))"
    using ne by (cases "dropWhile is_space (c # cs)") auto
  also have "\<dots> \<le> length (c # cs)"
    by (rule length_dropWhile_le)
  finally show "(dropWhile is_space (tl (dropWhile is_space (c # cs))), c # cs) \<in> measure length"
    by simp
next
  fix c :: jschar and cs :: jsstring
  show "(cs, c # cs) \<in> measure length" by simp
qed

text \<open>
  Lines 161 to 174 of \<open>generateRouteScreenshot\<close>: the checks of the route and the
  string built for the map service. \<open>places.slice(1, -1)\<close> is the list without its
  first and last element.
\<close>

definition formattedRoute :: "jsval \<Rightarrow> error + jsstring" where
  "formattedRoute route =
     (case route of
        Str r \<Rightarrow>
          if r = [] then Inl InvalidRouteFormat
          else
            let cleanedRoute = cleanRoute r;
                places = filter (\<lambda>p. p \<noteq> []) (split cleanedRoute (js ''-''))
            in if length places < 2 then Inl RouteTooShort
               else Inr (js ''&start;'' @ hd places @ js ''&''
                         @ join (js ''&'') (butlast (tl places))
                         @ js ''&end;'' @ last places)
      | _ \<Rightarrow> Inl InvalidRouteFormat)"

section \<open>The runtime outside the program\<close>

type_synonym bytes = "8 word list"

text \<open>
  What the program takes from its host: the directory of the module, \<open>path.join\<close>
  and \<open>path.dirname\<close>, \<open>JSON.parse\<close> (\<open>None\<close> is its SyntaxError), the
  number a string denotes (\<open>None\<close> is NaN), the offset of local time from UTC in
  milliseconds (a zone without daylight saving), the time value \<open>Date\<close> parses
  from a string, and \<open>toLocaleDateString('en-GB', {day: 'numeric', month: 'short',
  year: 'numeric'})\<close> of a time value.
\<close>

record host =
  dirname :: jsstring
  path_join :: "jsstring list \<Rightarrow> jsstring"
  path_dirname :: "jsstring \<Rightarrow> jsstring"
  JSON_parse :: "bytes \<Rightarrow> jsval option"
  StringToNumber :: "jsstring \<Rightarrow> int option"
  LocalTZA :: int
  Date_parse :: "jsstring \<Rightarrow> int option"
  toLocaleDateString :: "int option \<Rightarrow> jsstring"

fun ToNumber :: "host \<Rightarrow> jsval \<Rightarrow> int option" where
  "ToNumber h Undefined = None"
| "ToNumber h Null = Some 0"
| "ToNumber h (Bool b) = Some (if b then 1 else 0)"
| "ToNumber h (Num n) = Some n"
| "ToNumber h (Str s) = StringToNumber h s"
| "ToNumber h (Arr xs) = StringToNumber h (ToString (Arr xs))"
| "ToNumber h (Obj ps) = StringToNumber h (ToString (Obj ps))"

text \<open>
  \<open>Number.prototype.toString\<close> on \<open>NaN\<close> and on the whole numbers of magnitude
  at most \<open>2 ^ 53\<close>.
\<close>

fun Number_toString :: "int option \<Rightarrow> jsstring" where
  "Number_toString None = js ''NaN''"
| "Number_toString (Some n) = show_int n"

subsection \<open>Dates\<close>

text \<open>
  The built-in \<open>Date\<close>, after the abstract operations of ECMA-262. A date object is
  its time value, the milliseconds since the epoch; \<open>None\<close> is the invalid date.
\<close>

definition msPerDay :: int where
  "msPerDay = 86400000"

definition Day :: "int \<Rightarrow> int" where
  "Day t = t div msPerDay"

definition TimeWithinDay :: "int \<Rightarrow> int" where
  "TimeWithinDay t = t mod msPerDay"

definition DaysInYear :: "int \<Rightarrow> int" where
  "DaysInYear y =
     (if y mod 4 \<noteq> 0 then 365 else if y mod 100 \<noteq> 0 then 366
      else if y mod 400 \<noteq> 0 then 365 else 366)"

definition DayFromYear :: "int \<Rightarrow> int" where
  "DayFromYear y =
     365 * (y - 1970) + (y - 1969) div 4 - (y - 1901) div 100 + (y - 1601) div 400"

text \<open>The largest year that starts on or before the day of \<open>t\<close>: an estimate from
  the mean length of a year, corrected by one year where it is off.\<close>

definition YearFromTime :: "int \<Rightarrow> int" where
  "YearFromTime t =
     (let d = Day t; y = 1970 + (d * 400) div 146097
      in if d < DayFromYear y then y - 1
         else if DayFromYear (y + 1) \<le> d then y + 1
         else y)"

definition InLeapYear :: "int \<Rightarrow> int" where
  "InLeapYear t = (if DaysInYear (YearFromTime t) = 366 then 1 else 0)"

definition DayWithinYear :: "int \<Rightarrow> int" where
  "DayWithinYear t = Day t - DayFromYear (YearFromTime t)"

definition MonthFromTime :: "int \<Rightarrow> int" where
  "MonthFromTime t =
     (let d = DayWithinYear t; l = InLeapYear t
      in if d < 31 then 0
         else if d < 59 + l then 1
         else if d < 90 + l then 2
         else if d < 120 + l then 3
         else if d < 151 + l then 4
         else if d < 181 + l then 5
         else if d < 212 + l then 6
         else if d < 243 + l then 7
         else if d < 273 + l then 8
         else if d < 304 + l then 9
         else if d < 334 + l then 10
         else 11)"

definition DateFromTime :: "int \<Rightarrow> int" where
  "DateFromTime t =
     (let d = DayWithinYear t; l = InLeapYear t; m = MonthFromTime t
      in if m = 0 then d + 1
         else if m = 1 then d - 30
         else if m = 2 then d - 58 - l
         else if m = 3 then d - 89 - l
         else if m = 4 then d - 119 - l
         else if m = 5 then d - 150 - l
         else if m = 6 then d - 180 - l
         else if m = 7 then d - 211 - l
         else if m = 8 then d - 242 - l
         else if m = 9 then d - 272 - l
         else if m = 10 then d - 303 - l
         else d - 333 - l)"

text \<open>The number of days of the year before its month \<open>mn\<close> (0 to 11).\<close>

definition DaysBeforeMonth :: "int \<Rightarrow> int \<Rightarrow> int" where
  "DaysBeforeMonth l mn =
     (if mn = 0 then 0
      else if mn = 1 then 31
      else if mn = 2 then 59 + l
      else if mn = 3 then 90 + l
      else if mn = 4 then 120 + l
      else if mn = 5 then 151 + l
      else if mn = 6 then 181 + l
      else if mn = 7 then 212 + l
      else if mn = 8 then 243 + l
      else if mn = 9 then 273 + l
      else if mn = 10 then 304 + l
      else 334 + l)"

text \<open>\<open>MakeDay\<close>: the day number of the first of the month, plus \<open>date - 1\<close>; a
  date outside the month runs over into the neighbouring months.\<close>

definition MakeDay :: "int \<Rightarrow> int \<Rightarrow> int \<Rightarrow> int" where
  "MakeDay year month date =
     (let ym = year + month div 12; mn = month mod 12;
          l = (if DaysInYear ym = 366 then 1 else 0)
      in DayFromYear ym + DaysBeforeMonth l mn + date - 1)"

definition MakeDate :: "int \<Rightarrow> int \<Rightarrow> int" where
  "MakeDate day time = day * msPerDay + time"

definition TimeClip :: "int \<Rightarrow> int option" where
  "TimeClip t = (if \<bar>t\<bar> > 8640000000000000 then None else Some t)"

text \<open>\<open>new Date(v)\<close> for a value \<open>v\<close>: a string is parsed, any other
  primitive is a number of milliseconds.\<close>

fun newDate :: "host \<Rightarrow> jsval \<Rightarrow> int option" where
  "newDate h (Str s) = Date_parse h s"
| "newDate h (Arr xs) = Date_parse h (ToString (Arr xs))"
| "newDate h (Obj ps) = Date_parse h (ToString (Obj ps))"
| "newDate h v = (case ToNumber h v of None \<Rightarrow> None | Some n \<Rightarrow> TimeClip n)"

definition getDate :: "host \<Rightarrow> int option \<Rightarrow> int option" where
  "getDate h d = (case d of None \<Rightarrow> None | Some t \<Rightarrow> Some (DateFromTime (t + LocalTZA h)))"

text \<open>\<open>d.setDate(dt)\<close>, as the new time value of \<open>d\<close>.\<close>

definition setDate :: "host \<Rightarrow> int option \<Rightarrow> int option \<Rightarrow> int option" where
  "setDate h d dt =
     (case d of
        None \<Rightarrow> None
      | Some t0 \<Rightarrow>
          (case dt of
             None \<Rightarrow> None
           | Some n \<Rightarrow>
               let t = t0 + LocalTZA h;
                   nd = MakeDate (MakeDay (YearFromTime t) (MonthFromTime t) n)
                                 (TimeWithinDay t)
               in TimeClip (nd - LocalTZA h)))"

section \<open>The data of the document\<close>

record itbRow =
  dayNumber :: jsstring
  place :: jsval
  activity :: jsval

record iDetailRow =
  iDetailTitle :: jsstring
  iDesc :: jsval
  isOvernightStay :: jsstring
  foodSupply :: jsstring

record aRow =
  aCity :: jsval
  accomodation :: jsval

record imagePaths =
  companyLogo :: jsstring
  coverImage :: jsstring
  routeMap :: jsstring

record formatted =
  address :: jsval
  phone :: jsval
  email :: jsval
  web :: jsval
  totalDays :: jsstring
  totalNights :: jsstring
  touristName :: jsval
  noOfTravellers :: jsstring
  travelDatePeriod :: jsstring
  Route :: jsval
  itbTable :: "itbRow list"
  iDetail :: "iDetailRow list"
  aTable :: "aRow list"
  departureDate :: jsstring
  logo :: jsstring
  templateCoverImg :: jsstring
  mapSS :: jsstring
  images_paths :: imagePaths
  images_sizes :: "(jsstring \<times> int \<times> int) list"

text \<open>\<open>xs.map(f)\<close> with a callback that may throw: the first throw ends the loop.\<close>

fun traverse :: "('a \<Rightarrow> error + 'b) \<Rightarrow> 'a list \<Rightarrow> error + 'b list" where
  "traverse f [] = Inr []"
| "traverse f (x # xs) =
     (case f x of
        Inl e \<Rightarrow> Inl e
      | Inr y \<Rightarrow> (case traverse f xs of Inl e \<Rightarrow> Inl e | Inr ys \<Rightarrow> Inr (y # ys)))"

text \<open>\<open>n + v\<close> for a number \<open>n\<close>: a sum of numbers, or a concatenation when
  \<open>v\<close> is a string, an array or an object; and \<open>x - 1\<close> of the result.\<close>

fun js_plus :: "host \<Rightarrow> int option \<Rightarrow> jsval \<Rightarrow> int option + jsstring" where
  "js_plus h n (Str s) = Inr (Number_toString n @ s)"
| "js_plus h n (Arr xs) = Inr (Number_toString n @ ToString (Arr xs))"
| "js_plus h n (Obj ps) = Inr (Number_toString n @ ToString (Obj ps))"
| "js_plus h n v =
     Inl (case n of None \<Rightarrow> None
          | Some a \<Rightarrow> (case ToNumber h v of None \<Rightarrow> None | Some b \<Rightarrow> Some (a + b)))"

fun minus1 :: "host \<Rightarrow> int option + jsstring \<Rightarrow> int option" where
  "minus1 h (Inl n) = map_option (\<lambda>a. a - 1) n"
| "minus1 h (Inr s) = map_option (\<lambda>a. a - 1) (StringToNumber h s)"

text \<open>\<open>date.toLocaleDateString('en-GB', options).replace(/ /g, ' ')\<close>: the
  replacement puts a space for every space.\<close>

definition formatDateForDisplay :: "host \<Rightarrow> int option \<Rightarrow> jsstring" where
  "formatDateForDisplay h date = toLocaleDateString h date"

text \<open>The dash of the titles and of the travel period, U+2013, between two spaces.\<close>

definition dash :: jsstring where
  "dash = [0x20, 0x2013, 0x20]"

text \<open>The callback of \<open>itbTable\<close>.\<close>

definition itbRow_of :: "nat \<times> jsval \<Rightarrow> error + itbRow" where
  "itbRow_of = (\<lambda>(index, day).
     if nullish day then Inl TypeError
     else Inr \<lparr>dayNumber = js ''Day '' @ show_nat (index + 1),
               place = getp day (js ''place''),
               activity =
                 (if getp day (js ''activity'') = Str (js ''custom'')
                     \<or> \<not> truthy (getp day (js ''activity''))
                  then getp day (js ''customActivity'')
                  else getp day (js ''activity''))\<rparr>)"

text \<open>Lines 242 to 249: the meals of a day.\<close>

definition mealFlags :: "jsval \<Rightarrow> jsstring" where
  "mealFlags day =
     (let meals = js_or (getp day (js ''meals'')) (Obj [])
      in js ''(''
         @ (if truthy (getp meals (js ''breakfast'')) then js ''B'' else js ''-'')
         @ js ''/''
         @ (if truthy (getp meals (js ''lunch'')) then js ''L'' else js ''-'')
         @ js ''/''
         @ (if truthy (getp meals (js ''dinner'')) then js ''D'' else js ''-'')
         @ js '')'')"

text \<open>\<open>day.hotel === 'custom' ? day.customHotel : day.hotel\<close>.\<close>

definition hotelName :: "jsval \<Rightarrow> jsval" where
  "hotelName day =
     (if getp day (js ''hotel'') = Str (js ''custom'')
      then getp day (js ''customHotel'') else getp day (js ''hotel''))"

text \<open>Lines 252 to 256: the text of the overnight stay.\<close>

definition overnightText :: "jsval \<Rightarrow> jsstring" where
  "overnightText day =
     (if truthy (getp day (js ''overnightStay''))
      then (if truthy (hotelName day)
            then js ''Overnight Stay: '' @ ToString (hotelName day)
            else js ''Overnight stay'')
      else js ''No overnight stay'')"

text \<open>The callback of \<open>iDetail\<close>. Its \<open>formattedDate\<close> is never used, and
  computing it cannot throw.\<close>

definition iDetailRow_of :: "host \<Rightarrow> int option \<Rightarrow> nat \<times> jsval \<Rightarrow> error + iDetailRow" where
  "iDetailRow_of h startDate = (\<lambda>(index, day).
     let currentDate =
           setDate h startDate (map_option (\<lambda>d. d + int index) (getDate h startDate));
         displayDate = formatDateForDisplay h currentDate
     in if nullish day then Inl TypeError
        else Inr \<lparr>iDetailTitle =
                    js ''Day '' @ show_nat (index + 1) @ dash
                    @ ToString (getp day (js ''place''))
                    @ js '' ('' @ displayDate @ js '')'',
                  iDesc = js_or (getp day (js ''description''))
                                (Str (js ''Activities for the day'')),
                  isOvernightStay = overnightText day,
                  foodSupply = mealFlags day\<rparr>)"

text \<open>Lines 267 to 272: the accommodation table. (A day that is \<open>undefined\<close> or
  \<open>null\<close> has thrown in the loops before.)\<close>

definition aTable_of :: "jsval list \<Rightarrow> aRow list" where
  "aTable_of days =
     map (\<lambda>day. \<lparr>aCity = getp day (js ''place''), accomodation = hotelName day\<rparr>)
       (filter (\<lambda>day. truthy (js_and (getp day (js ''overnightStay''))
                                   (js_or (getp day (js ''hotel''))
                                          (getp day (js ''customHotel'')))))
          days)"

text \<open>Lines 275 to 280 and line 313: the paths of the cover image and of the logo.
  \<open>path.join\<close> throws on an argument that is not a string.\<close>

definition coverImagePath :: "host \<Rightarrow> jsval \<Rightarrow> error + jsstring" where
  "coverImagePath h itinerary =
     (if getp itinerary (js ''coverImage'') = Str (js ''custom'')
         \<and> truthy (getp itinerary (js ''customImage''))
      then (case getp itinerary (js ''customImage'') of
              Str s \<Rightarrow> Inr (path_join h [dirname h, js ''./'', s])
            | _ \<Rightarrow> Inl TypeError)
      else Inr (path_join h [dirname h, js ''./public/public/default-cover.jpg'']))"

definition companyLogoPath :: "host \<Rightarrow> jsval \<Rightarrow> error + jsstring" where
  "companyLogoPath h companyInfo =
     (case getp companyInfo (js ''logo'') of
        Str s \<Rightarrow> Inr (path_join h [dirname h, js ''./'', s])
      | _ \<Rightarrow> Inl TypeError)"

definition formatItineraryData ::
  "host \<Rightarrow> jsval \<Rightarrow> jsval \<Rightarrow> jsstring \<Rightarrow> error + formatted" where
  "formatItineraryData h itinerary companyInfo screenshotPath =
     (if nullish itinerary then Inl TypeError
      else
        let numberOfDays = getp itinerary (js ''numberOfDays'');
            nights = map_option (\<lambda>n. n - 1) (ToNumber h numberOfDays);
            startDate = newDate h (getp itinerary (js ''tourStartDate''));
            endDate = setDate h startDate
                        (minus1 h (js_plus h (getDate h startDate) numberOfDays));
            period =
              formatDateForDisplay h startDate @ dash @ formatDateForDisplay h endDate;
            numberOfTravelers = getp itinerary (js ''numberOfTravelers'');
            travellers =
              (if (case ToNumber h numberOfTravelers of None \<Rightarrow> False | Some n \<Rightarrow> 1 < n)
               then ToString numberOfTravelers else js ''1'')
        in case getp itinerary (js ''dailyPlans'') of
             Arr days \<Rightarrow>
               (case traverse itbRow_of (enumerate 0 days) of
                  Inl e \<Rightarrow> Inl e
                | Inr itbRows \<Rightarrow>
               (case traverse (iDetailRow_of h startDate) (enumerate 0 days) of
                  Inl e \<Rightarrow> Inl e
                | Inr iDetailRows \<Rightarrow>
               (case coverImagePath h itinerary of
                  Inl e \<Rightarrow> Inl e
                | Inr coverPath \<Rightarrow>
                    if nullish companyInfo \<or> nullish numberOfDays then Inl TypeError
                    else
               (case companyLogoPath h companyInfo of
                  Inl e \<Rightarrow> Inl e
                | Inr logoPath \<Rightarrow>
                    Inr \<lparr>address = getp companyInfo (js ''address''),
                         phone = getp companyInfo (js ''phone''),
                         email = getp companyInfo (js ''email''),
                         web = getp companyInfo (js ''website''),
                         totalDays = ToString numberOfDays,
                         totalNights = Number_toString nights,
                         touristName = getp itinerary (js ''touristName''),
                         noOfTravellers = travellers,
                         travelDatePeriod = period,
                         Route = getp itinerary (js ''route''),
                         itbTable = itbRows,
                         iDetail = iDetailRows,
                         aTable = aTable_of days,
                         departureDate = formatDateForDisplay h endDate,
                         logo = js ''companyLogo'',
                         templateCoverImg = js ''coverImage'',
                         mapSS = js ''routeMap'',
                         images_paths =
                           \<lparr>companyLogo = logoPath, coverImage = coverPath,
                            routeMap = screenshotPath\<rparr>,
                         images_sizes =
                           [(js ''companyLogo'', 315, 50), (js ''coverImage'', 698, 334),
                            (js ''routeMap'', 307, 420)]\<rparr>))))
           | _ \<Rightarrow> Inl TypeError)"

section \<open>Files and services\<close>

text \<open>
  What the program asks of the outside, in the order of the calls: the page put to the
  screenshot service with its device, and the requests to the conversion service, with
  the pauses between them in milliseconds.
\<close>

datatype event =
    Capture jsstring jsstring
  | Upload jsstring
  | ConvertToPdf jsval
  | Sleep nat
  | GetJobStatus jsval
  | DownloadJobResult jsval

text \<open>The files with their content, the directories, and the calls so far.\<close>

record world =
  files :: "jsstring \<Rightarrow> bytes option"
  dirs :: "jsstring set"
  trace :: "event list"

text \<open>
  The answers of the screenshot service, of the template library and of the conversion
  service; \<open>None\<close> is a rejected request or a throw of the library. \<open>getJobStatus sv jobId n\<close> is the answer to the \<open>n\<close>-th poll. The
  model covers the runs in which every request is answered.
\<close>

record services =
  ssweb :: "jsstring \<Rightarrow> jsstring \<Rightarrow> bytes option"
  docx_render :: "bytes \<Rightarrow> formatted \<Rightarrow> (jsstring \<Rightarrow> bytes option) \<Rightarrow> bytes option"
  upload :: "bytes \<Rightarrow> jsval option"
  convertToPdf :: "jsval \<Rightarrow> jsval option"
  getJobStatus :: "jsval \<Rightarrow> nat \<Rightarrow> jsval option"
  downloadJobResult :: "jsval \<Rightarrow> bytes option"

definition existsSync :: "world \<Rightarrow> jsstring \<Rightarrow> bool" where
  "existsSync w p \<longleftrightarrow> files w p \<noteq> None \<or> p \<in> dirs w"

definition mkdirSync :: "world \<Rightarrow> jsstring \<Rightarrow> world" where
  "mkdirSync w p = w\<lparr>dirs := insert p (dirs w)\<rparr>"

definition writeFileSync :: "world \<Rightarrow> jsstring \<Rightarrow> bytes \<Rightarrow> world" where
  "writeFileSync w p b = w\<lparr>files := (files w)(p \<mapsto> b)\<rparr>"

definition record_event :: "world \<Rightarrow> event \<Rightarrow> world" where
  "record_event w e = w\<lparr>trace := trace w @ [e]\<rparr>"

text \<open>\<open>JSON.parse(fs.readFileSync(p, 'utf8'))\<close>, after the check that \<open>p\<close>
  exists, which throws \<open>missing\<close>.\<close>

definition readJson :: "host \<Rightarrow> world \<Rightarrow> jsstring \<Rightarrow> error \<Rightarrow> error + jsval" where
  "readJson h w p missing =
     (if \<not> existsSync w p then Inl missing
      else (case files w p of
              None \<Rightarrow> Inl ReadFailed
            | Some b \<Rightarrow> (case JSON_parse h b of None \<Rightarrow> Inl SyntaxError | Some v \<Rightarrow> Inr v)))"

definition itinerariesPath :: "host \<Rightarrow> jsstring" where
  "itinerariesPath h = path_join h [dirname h, js ''./evelodatabase/itineraries.json'']"

definition usersPath :: "host \<Rightarrow> jsstring" where
  "usersPath h = path_join h [dirname h, js ''./evelodatabase/users.json'']"

definition screenshotsDir :: "host \<Rightarrow> jsstring" where
  "screenshotsDir h = path_join h [dirname h, js ''./db/img/itinerary'']"

definition tempStoreDir :: "host \<Rightarrow> jsstring" where
  "tempStoreDir h = path_join h [dirname h, js ''./db/temp/tempStore'']"

section \<open>The itinerary pipeline\<close>

subsection \<open>getItineraryById\<close>

text \<open>The condition of line 113 on the key \<open>itinId\<close> and its value.\<close>

definition matches :: "jsstring \<Rightarrow> jsstring \<Rightarrow> jsval \<Rightarrow> bool" where
  "matches itineraryId itinId v \<longleftrightarrow>
     itinId = itineraryId
     \<or> (truthy v
        \<and> (getp v (js ''id'') = Str itineraryId
           \<or> (truthy (getp v (js ''data''))
              \<and> getp (getp v (js ''data'')) (js ''id'') = Str itineraryId)))"

text \<open>Whether a document holds an itinerary that the loops accept for the identifier:
  under some user whose value is an object or an array.\<close>

definition holds :: "jsval \<Rightarrow> jsstring \<Rightarrow> bool" where
  "holds data itineraryId \<longleftrightarrow>
     (\<exists>p\<in>set (forin data). truthy (snd p) \<and> isObject (snd p)
        \<and> (\<exists>q\<in>set (forin (snd p)). matches itineraryId (fst q) (snd q)))"

text \<open>\<open>{ ...v, userId: userId }\<close>: the own properties of \<open>v\<close>, then
  \<open>userId\<close>, which replaces the value of a property of that name where there is
  one and is a new last property otherwise.\<close>

fun set_prop :: "(jsstring \<times> jsval) list \<Rightarrow> jsstring \<Rightarrow> jsval \<Rightarrow> (jsstring \<times> jsval) list" where
  "set_prop [] k v = [(k, v)]"
| "set_prop ((k', v') # ps) k v =
     (if k' = k then (k, v) # ps else (k', v') # set_prop ps k v)"

definition with_userId :: "jsval \<Rightarrow> jsstring \<Rightarrow> jsval" where
  "with_userId v userId = Obj (set_prop (forin v) (js ''userId'') (Str userId))"

text \<open>The inner loop, over the itineraries of one user, and the outer loop, over the
  users of the document.\<close>

fun find_in_user :: "jsstring \<Rightarrow> jsstring \<Rightarrow> (jsstring \<times> jsval) list \<Rightarrow> jsval option" where
  "find_in_user itineraryId userId [] = None"
| "find_in_user itineraryId userId ((itinId, v) # rest) =
     (if matches itineraryId itinId v then Some (with_userId v userId)
      else find_in_user itineraryId userId rest)"

fun find_itinerary :: "jsstring \<Rightarrow> (jsstring \<times> jsval) list \<Rightarrow> jsval option" where
  "find_itinerary itineraryId [] = None"
| "find_itinerary itineraryId ((userId, u) # rest) =
     (if truthy u \<and> isObject u
      then (case find_in_user itineraryId userId (forin u) of
              Some r \<Rightarrow> Some r
            | None \<Rightarrow> find_itinerary itineraryId rest)
      else find_itinerary itineraryId rest)"

text \<open>The result \<open>None\<close> is the \<open>null\<close> of the source.\<close>

definition getItineraryById ::
  "host \<Rightarrow> world \<Rightarrow> jsstring \<Rightarrow> error + jsval option" where
  "getItineraryById h w itineraryId =
     (case readJson h w (itinerariesPath h) ItinerariesFileNotFound of
        Inl e \<Rightarrow> Inl e
      | Inr data \<Rightarrow> Inr (find_itinerary itineraryId (forin data)))"

subsection \<open>getCompanyInfo\<close>

text \<open>\<open>users.find(u => u.id === `user_${userId}` || u.id === userId)\<close>.\<close>

fun find_user :: "jsval \<Rightarrow> jsval list \<Rightarrow> error + jsval" where
  "find_user userId [] = Inr Undefined"
| "find_user userId (u # us) =
     (if nullish u then Inl TypeError
      else if getp u (js ''id'') = Str (js ''user_'' @ ToString userId)
              \<or> strict_eq (getp u (js ''id'')) userId
      then Inr u
      else find_user userId us)"

definition getCompanyInfo :: "host \<Rightarrow> world \<Rightarrow> jsval \<Rightarrow> error + jsval" where
  "getCompanyInfo h w userId =
     (case readJson h w (usersPath h) UsersFileNotFound of
        Inl e \<Rightarrow> Inl e
      | Inr users \<Rightarrow>
          (case users of
             Arr us \<Rightarrow>
               (case find_user userId us of
                  Inl e \<Rightarrow> Inl e
                | Inr user \<Rightarrow>
                    Inr (if truthy user then getp user (js ''companyInfo'') else Null))
           | _ \<Rightarrow> Inl TypeError))"

subsection \<open>generateRouteScreenshot\<close>

text \<open>\<open>captureMapScreenshot\<close> of \<open>mapSS.js\<close>.\<close>

definition captureMapScreenshot ::
  "services \<Rightarrow> world \<Rightarrow> jsstring \<Rightarrow> jsstring \<Rightarrow> jsstring \<Rightarrow> (error + unit) \<times> world" where
  "captureMapScreenshot sv w route filePath device =
     (let fullUrl = js ''https://map-framer-orpin.vercel.app/#'' @ route;
          w1 = record_event w (Capture fullUrl device)
      in case ssweb sv fullUrl device of
           None \<Rightarrow> (Inl CaptureFailed, w1)
         | Some img \<Rightarrow> (Inr (), writeFileSync w1 filePath img))"

definition generateRouteScreenshot ::
  "host \<Rightarrow> services \<Rightarrow> world \<Rightarrow> jsval \<Rightarrow> jsstring \<Rightarrow> (error + jsstring) \<times> world" where
  "generateRouteScreenshot h sv w route itineraryId =
     (case formattedRoute route of
        Inl e \<Rightarrow> (Inl e, w)
      | Inr fr \<Rightarrow>
          let w1 = (if \<not> existsSync w (screenshotsDir h)
                    then mkdirSync w (screenshotsDir h) else w);
              screenshotPath = path_join h [screenshotsDir h, itineraryId @ js ''.jpg'']
          in case captureMapScreenshot sv w1 fr screenshotPath (js ''phone'') of
               (Inl e, w2) \<Rightarrow> (Inl e, w2)
             | (Inr u, w2) \<Rightarrow> (Inr screenshotPath, w2))"

subsection \<open>generateItineraryDocument\<close>

text \<open>\<open>generateDocument\<close> of \<open>render.js\<close>. Its data and its images are objects,
  which are never falsy.\<close>

definition generateDocument ::
  "host \<Rightarrow> services \<Rightarrow> world \<Rightarrow> jsstring \<Rightarrow> formatted \<Rightarrow> jsstring \<Rightarrow> (error + jsstring) \<times> world" where
  "generateDocument h sv w templatePath data outputPath =
     (if templatePath = [] \<or> outputPath = [] then (Inl MissingParameters, w)
      else if \<not> existsSync w templatePath then (Inl TemplateNotFound, w)
      else
        (case files w templatePath of
           None \<Rightarrow> (Inl ReadFailed, w)
         | Some content \<Rightarrow>
             (case docx_render sv content data (files w) of
                None \<Rightarrow> (Inl RenderFailed, w)
              | Some buf \<Rightarrow>
                  let outputDir = path_dirname h outputPath;
                      w1 = (if \<not> existsSync w outputDir then mkdirSync w outputDir else w)
                  in (Inr outputPath, writeFileSync w1 outputPath buf))))"

definition generateItineraryDocument ::
  "host \<Rightarrow> services \<Rightarrow> world \<Rightarrow> formatted \<Rightarrow> jsstring \<Rightarrow> (error + jsstring) \<times> world" where
  "generateItineraryDocument h sv w data outputPath =
     (let templatePath = path_join h [dirname h, js ''./db/temp/template.docx'']
      in if \<not> existsSync w templatePath then (Inl TemplateFileNotFound, w)
         else (case generateDocument h sv w templatePath data outputPath of
                 (Inl e, w1) \<Rightarrow> (Inl e, w1)
               | (Inr p, w1) \<Rightarrow> (Inr outputPath, w1)))"

section \<open>The conversion to PDF\<close>

definition maxAttempts :: nat where
  "maxAttempts = 30"

text \<open>\<open>statusResponse.data?.status\<close>, and the same for \<open>jobId\<close>.\<close>

definition opt_chain :: "jsval \<Rightarrow> jsstring \<Rightarrow> jsval" where
  "opt_chain v k = (if nullish v then Undefined else getp v k)"

text \<open>The loop of lines 187 to 208, entered with the attempts made so far. \<open>Inr\<close>
  is the end of the loop, after which the program downloads.\<close>

function poll :: "services \<Rightarrow> jsval \<Rightarrow> nat \<Rightarrow> world \<Rightarrow> (conv_error + unit) \<times> world" where
  "poll sv jobId attempts w =
     (if attempts < maxAttempts
      then
        let attempts1 = attempts + 1;
            w1 = record_event (record_event w (Sleep 2000)) (GetJobStatus jobId)
        in case getJobStatus sv jobId attempts1 of
             None \<Rightarrow> (Inl RequestFailed, w1)
           | Some data \<Rightarrow>
               if opt_chain data (js ''status'') = Str (js ''done'') then (Inr (), w1)
               else if opt_chain data (js ''status'') = Str (js ''failed'')
               then (Inl FailedOnServer, w1)
               else if attempts1 = maxAttempts then (Inl ConversionTimeout, w1)
               else poll sv jobId attempts1 w1
      else (Inr (), w))"
  by pat_completeness auto
termination
  by (relation "measure (\<lambda>(sv, jobId, attempts, w). maxAttempts - attempts)") auto

declare poll.simps [simp del]

text \<open>
  How the loop reads the answer to the \<open>n\<close>-th poll: the request is rejected, the
  status is \<open>done\<close>, it is \<open>failed\<close>, or it is anything else and the job is
  taken to be converting still. \<open>polled jobId n\<close> are the calls of \<open>n\<close> rounds
  of the loop.
\<close>

datatype answer = Rejected | Done | Failed | Converting

definition answer_of :: "services \<Rightarrow> jsval \<Rightarrow> nat \<Rightarrow> answer" where
  "answer_of sv jobId n =
     (case getJobStatus sv jobId n of
        None \<Rightarrow> Rejected
      | Some data \<Rightarrow>
          if opt_chain data (js ''status'') = Str (js ''done'') then Done
          else if opt_chain data (js ''status'') = Str (js ''failed'') then Failed
          else Converting)"

definition polled :: "jsval \<Rightarrow> nat \<Rightarrow> event list" where
  "polled jobId n = concat (replicate n [Sleep 2000, GetJobStatus jobId])"

text \<open>What the loop does on the first answer that is not \<open>Converting\<close>.\<close>

fun outcome :: "answer \<Rightarrow> conv_error + unit" where
  "outcome Done = Inr ()"
| "outcome Failed = Inl FailedOnServer"
| "outcome Rejected = Inl RequestFailed"
| "outcome Converting = Inl ConversionTimeout"

text \<open>The file description sent with the conversion request.\<close>

definition fileDescription :: "jsval \<Rightarrow> jsval" where
  "fileDescription fileInfo =
     Obj [(js ''file'', getp fileInfo (js ''file'')), (js ''host'', getp fileInfo (js ''host'')),
          (js ''name'', getp fileInfo (js ''name'')), (js ''size'', getp fileInfo (js ''size'')),
          (js ''ctime'', getp fileInfo (js ''ctime''))]"

text \<open>The upload of the content is accepted with the file description \<open>fileInfo\<close>, and
  the conversion request for it is answered with the job \<open>jobId\<close>.\<close>

definition job_started :: "services \<Rightarrow> bytes \<Rightarrow> jsval \<Rightarrow> jsval \<Rightarrow> bool" where
  "job_started sv content fileInfo jobId \<longleftrightarrow>
     (case upload sv content of
        Some (Arr (f # others)) \<Rightarrow> f = fileInfo
      | _ \<Rightarrow> False)
     \<and> \<not> nullish fileInfo
     \<and> (case convertToPdf sv (fileDescription fileInfo) of
          Some cdata \<Rightarrow> jobId = getp cdata (js ''jobId'')
        | None \<Rightarrow> False)
     \<and> truthy jobId"

text \<open>The body of the \<open>try\<close> of \<open>convertDocxToPdf\<close>.\<close>

definition convert_body ::
  "services \<Rightarrow> world \<Rightarrow> jsstring \<Rightarrow> jsstring \<Rightarrow> (conv_error + unit) \<times> world" where
  "convert_body sv w inputFilePath outputFilePath =
     (if \<not> existsSync w inputFilePath then (Inl InputNotFound, w)
      else if outputFilePath = [] \<or> \<not> endsWith outputFilePath (js ''.pdf'')
      then (Inl OutputNotPdf, w)
      else
        let w1 = record_event w (Upload inputFilePath)
        in case files w inputFilePath of
             None \<Rightarrow> (Inl RequestFailed, w1)
           | Some content \<Rightarrow>
        (case upload sv content of
             None \<Rightarrow> (Inl RequestFailed, w1)
           | Some (Arr (fileInfo # others)) \<Rightarrow>
               if nullish fileInfo then (Inl RuntimeError, w1)
               else
                 let w2 = record_event w1 (ConvertToPdf (fileDescription fileInfo))
                 in (case convertToPdf sv (fileDescription fileInfo) of
                       None \<Rightarrow> (Inl RequestFailed, w2)
                     | Some cdata \<Rightarrow>
                         if \<not> truthy (opt_chain cdata (js ''jobId''))
                         then (Inl ConversionNotStarted, w2)
                         else
                           let jobId = getp cdata (js ''jobId'')
                           in (case poll sv jobId 0 w2 of
                                 (Inl e, w3) \<Rightarrow> (Inl e, w3)
                               | (Inr u, w3) \<Rightarrow>
                                   let w4 = record_event w3 (DownloadJobResult jobId)
                                   in (case downloadJobResult sv jobId of
                                         None \<Rightarrow> (Inl RequestFailed, w4)
                                       | Some pdf \<Rightarrow>
                                           (Inr (), writeFileSync w4 outputFilePath pdf))))
           | Some other \<Rightarrow> (Inl UploadFailed, w1)))"

text \<open>The \<open>catch\<close> wraps every error of the body.\<close>

definition convertDocxToPdf ::
  "services \<Rightarrow> world \<Rightarrow> jsstring \<Rightarrow> jsstring \<Rightarrow> (error + unit) \<times> world" where
  "convertDocxToPdf sv w inputFilePath outputFilePath =
     (case convert_body sv w inputFilePath outputFilePath of
        (Inl e, w1) \<Rightarrow> (Inl (ConversionFailed e), w1)
      | (Inr u, w1) \<Rightarrow> (Inr (), w1))"

section \<open>processItinerary\<close>

text \<open>Lines 32 to 38: the error thrown for the fields of the itinerary, if any.\<close>

definition validateFields :: "jsstring \<Rightarrow> jsval \<Rightarrow> error option" where
  "validateFields itineraryId itineraryData =
     (if \<not> truthy (getp itineraryData (js ''route''))
         \<or> \<not> isString (getp itineraryData (js ''route''))
      then Some (InvalidRoute itineraryId)
      else if \<not> truthy (getp itineraryData (js ''dailyPlans''))
              \<or> \<not> isArray (getp itineraryData (js ''dailyPlans''))
      then Some (InvalidDailyPlans itineraryId)
      else None)"

text \<open>\<open>Object.keys(itinerary)[0]?.split('_')[1]\<close>.\<close>

definition keyFallback :: "jsval \<Rightarrow> jsval" where
  "keyFallback itinerary =
     (case map fst (forin itinerary) of
        [] \<Rightarrow> Undefined
      | k # ks \<Rightarrow> (case split k (js ''_'') of p # q # qs \<Rightarrow> Str q | _ \<Rightarrow> Undefined))"

text \<open>Line 41.\<close>

definition resolveUserId :: "jsval \<Rightarrow> jsval \<Rightarrow> jsval" where
  "resolveUserId itinerary itineraryData =
     js_or (js_or (getp itinerary (js ''userId'')) (getp itineraryData (js ''userId'')))
           (keyFallback itinerary)"

text \<open>Which operand of line 41 gives the user: \<open>||\<close> evaluates its right operand only
  when the left one is falsy.\<close>

datatype userId_source = OfItinerary | OfData | OfKeyNaming

definition userIdSource :: "jsval \<Rightarrow> jsval \<Rightarrow> userId_source" where
  "userIdSource itinerary itineraryData =
     (if truthy (getp itinerary (js ''userId'')) then OfItinerary
      else if truthy (getp itineraryData (js ''userId'')) then OfData
      else OfKeyNaming)"

text \<open>Lines 52 to 58: the first part of the route loses its white space.\<close>

definition airportRoute :: "jsstring \<Rightarrow> jsstring" where
  "airportRoute route =
     (case split route (js '' - '') of
        [] \<Rightarrow> []
      | p # ps \<Rightarrow> join (js '' - '') (filter (\<lambda>c. \<not> is_space c) p # ps))"

text \<open>The object returned; \<open>itineraryOut\<close> and \<open>screenshotOut\<close> are its fields
  \<open>itinerary\<close> and \<open>screenshotPath\<close>.\<close>

record processed =
  success :: bool
  itineraryOut :: formatted
  documentPath :: jsstring
  docxPath :: jsstring
  screenshotOut :: jsstring

definition processItinerary ::
  "host \<Rightarrow> services \<Rightarrow> world \<Rightarrow> jsstring \<Rightarrow> (error + processed) \<times> world" where
  "processItinerary h sv w itineraryId =
     (case getItineraryById h w itineraryId of
        Inl e \<Rightarrow> (Inl e, w)
      | Inr None \<Rightarrow> (Inl (ItineraryNotFound itineraryId), w)
      | Inr (Some itinerary) \<Rightarrow>
          let itineraryData = js_or (getp itinerary (js ''data'')) itinerary
          in (case validateFields itineraryId itineraryData of
                Some e \<Rightarrow> (Inl e, w)
              | None \<Rightarrow>
          let userId = resolveUserId itinerary itineraryData
          in if \<not> truthy userId then (Inl (NoUserId itineraryId), w)
             else
          (case getCompanyInfo h w userId of
             Inl e \<Rightarrow> (Inl e, w)
           | Inr companyInfo \<Rightarrow>
          if \<not> truthy companyInfo then (Inl (CompanyInfoNotFound (ToString userId)), w)
          else
          let route = airportRoute (ToString (getp itineraryData (js ''route'')))
          in
          (case generateRouteScreenshot h sv w (Str route) itineraryId of
             (Inl e, w1) \<Rightarrow> (Inl e, w1)
           | (Inr shot, w1) \<Rightarrow>
          (case formatItineraryData h itineraryData companyInfo shot of
             Inl e \<Rightarrow> (Inl e, w1)
           | Inr formattedData \<Rightarrow>
          let docxOutputPath = path_join h [tempStoreDir h, itineraryId @ js ''.docx''];
              pdfOutputPath = path_join h [tempStoreDir h, itineraryId @ js ''.pdf''];
              w2 = (if \<not> existsSync w1 (tempStoreDir h)
                    then mkdirSync w1 (tempStoreDir h) else w1)
          in
          (case generateItineraryDocument h sv w2 formattedData docxOutputPath of
             (Inl e, w3) \<Rightarrow> (Inl e, w3)
           | (Inr p, w3) \<Rightarrow>
          (case convertDocxToPdf sv w3 docxOutputPath pdfOutputPath of
             (Inl e, w4) \<Rightarrow> (Inl e, w4)
           | (Inr u, w4) \<Rightarrow>
               (Inr \<lparr>success = True, itineraryOut = formattedData,
                     documentPath = pdfOutputPath, docxPath = docxOutputPath,
                     screenshotOut = shot\<rparr>, w4))))))))"

section \<open>The listing of a user's itineraries\<close>

text \<open>
  \<open>allItineraries[userId]\<close>: the own property. An inherited member (a method, the
  length of an array) has no values to list, as a missing key has none, so the model
  reads it as \<open>undefined\<close>.
\<close>

definition own_prop :: "jsval \<Rightarrow> jsstring \<Rightarrow> jsval" where
  "own_prop v k = (case map_of (forin v) k of Some x \<Rightarrow> x | None \<Rightarrow> Undefined)"

text \<open>The comparator of line 380; \<open>None\<close> is NaN.\<close>

definition byTimestamp :: "host \<Rightarrow> jsval \<Rightarrow> jsval \<Rightarrow> int option" where
  "byTimestamp h a b =
     (case newDate h (getp b (js ''timestamp'')) of
        None \<Rightarrow> None
      | Some tb \<Rightarrow>
          (case newDate h (getp a (js ''timestamp'')) of
             None \<Rightarrow> None
           | Some ta \<Rightarrow> Some (tb - ta)))"

text \<open>
  \<open>xs.sort(cmp)\<close>. The sort of the runtime is stable, and for a comparator that
  orders the elements consistently its result is the one of this insertion sort: an
  element stays before a later one unless the comparator is positive on the pair (NaN
  counts as zero).
\<close>

fun insert_sorted :: "('a \<Rightarrow> 'a \<Rightarrow> int option) \<Rightarrow> 'a \<Rightarrow> 'a list \<Rightarrow> 'a list" where
  "insert_sorted cmp x [] = [x]"
| "insert_sorted cmp x (y # ys) =
     (if (case cmp x y of None \<Rightarrow> True | Some c \<Rightarrow> c \<le> 0) then x # y # ys
      else y # insert_sorted cmp x ys)"

definition js_sort :: "('a \<Rightarrow> 'a \<Rightarrow> int option) \<Rightarrow> 'a list \<Rightarrow> 'a list" where
  "js_sort cmp xs = foldr (insert_sorted cmp) xs []"

text \<open>With two or more elements the comparator reads \<open>timestamp\<close> of every one of
  them, and throws on \<open>null\<close>.\<close>

definition sortNewestFirst :: "host \<Rightarrow> jsval list \<Rightarrow> error + jsval list" where
  "sortNewestFirst h xs =
     (if 2 \<le> length xs \<and> (\<exists>x\<in>set xs. nullish x) then Inl TypeError
      else Inr (js_sort (byTimestamp h) xs))"

datatype response =
    Ok "jsval list"     \<comment> \<open>success, with count and itineraries\<close>
  | BadRequest          \<comment> \<open>status 400: User ID is required\<close>
  | ServerError         \<comment> \<open>status 500: Failed to fetch itineraries\<close>

text \<open>The handler of \<open>GET /api/itineraries\<close>, on the \<open>userId\<close> of the query.\<close>

definition listItineraries :: "host \<Rightarrow> world \<Rightarrow> jsval \<Rightarrow> response" where
  "listItineraries h w userId =
     (if \<not> truthy userId then BadRequest
      else
        (case files w (path_join h [dirname h, js ''evelodatabase'', js ''itineraries.json'']) of
           None \<Rightarrow> ServerError
         | Some b \<Rightarrow>
             (case JSON_parse h b of
                None \<Rightarrow> ServerError
              | Some allItineraries \<Rightarrow>
                  if nullish allItineraries then ServerError
                  else
                    let userItineraries =
                          js_or (own_prop allItineraries (ToString userId)) (Obj [])
                    in (case sortNewestFirst h (Object_values userItineraries) of
                          Inl e \<Rightarrow> ServerError
                        | Inr itinerariesArray \<Rightarrow> Ok itinerariesArray))))"

section \<open>Example data\<close>

text \<open>A host in the zone UTC+05:30 that parses two dates and shows dates as day, short
  month and year.\<close>

definition example_months :: "jsstring list" where
  "example_months =
     [js ''Jan'', js ''Feb'', js ''Mar'', js ''Apr'', js ''May'', js ''Jun'',
      js ''Jul'', js ''Aug'', js ''Sep'', js ''Oct'', js ''Nov'', js ''Dec'']"

definition example_show_date :: "int option \<Rightarrow> jsstring" where
  "example_show_date d =
     (case d of
        None \<Rightarrow> js ''Invalid Date''
      | Some t \<Rightarrow>
          show_int (DateFromTime (t + 19800000)) @ js '' ''
          @ example_months ! nat (MonthFromTime (t + 19800000)) @ js '' ''
          @ show_int (YearFromTime (t + 19800000)))"

definition example_company :: jsval where
  "example_company =
     Obj [(js ''companyName'', Str (js ''Euro Lanka'')), (js ''address'', Str (js ''Galle Road'')),
          (js ''logo'', Str (js ''/db/img/pp/logo.png''))]"

definition example_days :: "jsval list" where
  "example_days =
     [Obj [(js ''place'', Str (js ''Colombo'')),
           (js ''meals'', Obj [(js ''breakfast'', Bool True), (js ''lunch'', Bool True),
                               (js ''dinner'', Bool True)]),
           (js ''overnightStay'', Bool True), (js ''hotel'', Str (js ''Galle Face''))],
      Obj [(js ''place'', Str (js ''Kandy'')),
           (js ''meals'', Obj [(js ''breakfast'', Bool False), (js ''lunch'', Bool False),
                               (js ''dinner'', Bool False)]),
           (js ''overnightStay'', Bool True), (js ''hotel'', Str (js ''custom'')),
           (js ''customHotel'', Str [])],
      Obj [(js ''place'', Str (js ''Ella'')),
           (js ''meals'', Obj [(js ''breakfast'', Bool True), (js ''lunch'', Bool False),
                               (js ''dinner'', Bool False)]),
           (js ''overnightStay'', Bool True), (js ''hotel'', Str [])],
      Obj [(js ''place'', Str (js ''Matara'')), (js ''overnightStay'', Bool False)]]"

definition example_itinerary :: jsval where
  "example_itinerary =
     Obj [(js ''route'', Str (js ''Colombo - Kandy - Ella - Matara'')),
          (js ''touristName'', Str (js ''A. Perera'')),
          (js ''numberOfTravelers'', Num 2),
          (js ''tourStartDate'', Str (js ''2025-01-30'')),
          (js ''numberOfDays'', Num 4),
          (js ''dailyPlans'', Arr example_days)]"

text \<open>
  The document of the itineraries: under the user \<open>7\<close> the record of the example
  itinerary, as the server writes it, and a later record that names another user and
  whose list of daily plans is empty; under the user \<open>8\<close> a record without route and one without daily plans. A
  second document holds an itinerary under the user with the empty name.
\<close>

definition example_record :: jsval where
  "example_record =
     Obj [(js ''id'', Str (js ''itin_1'')), (js ''userId'', Str (js ''7'')),
          (js ''timestamp'', Str (js ''2025-01-30'')), (js ''data'', example_itinerary)]"

definition example_empty_plans :: jsval where
  "example_empty_plans =
     Obj [(js ''route'', Str (js ''A - B'')), (js ''numberOfDays'', Num 1),
          (js ''dailyPlans'', Arr [])]"

definition example_later_record :: jsval where
  "example_later_record =
     Obj [(js ''id'', Str (js ''itin_2'')), (js ''userId'', Str (js ''9'')),
          (js ''timestamp'', Str (js ''2025-02-01'')), (js ''data'', example_empty_plans)]"

definition example_store :: jsval where
  "example_store =
     Obj [(js ''7'',
           Obj [(js ''itin_1'', example_record), (js ''itin_2'', example_later_record)]),
          (js ''8'',
           Obj [(js ''itin_3'',
                 Obj [(js ''id'', Str (js ''itin_3'')),
                      (js ''data'', Obj [(js ''dailyPlans'', Arr [])])]),
                (js ''itin_4'',
                 Obj [(js ''id'', Str (js ''itin_4'')),
                      (js ''data'', Obj [(js ''route'', Str (js ''A - B''))])])])]"

definition example_nameless_store :: jsval where
  "example_nameless_store = Obj [([], Obj [(js ''itin_1'', example_empty_plans)])]"

definition example_users :: jsval where
  "example_users =
     Arr [Obj [(js ''id'', Str (js ''user_7'')), (js ''companyInfo'', example_company)]]"

text \<open>Paths joined by a slash, without the \<open>./\<close> at the head of a part and
  without empty parts.\<close>

definition example_path_join :: "jsstring list \<Rightarrow> jsstring" where
  "example_path_join ps =
     join (js ''/'')
       (filter (\<lambda>p. p \<noteq> [])
          (map (\<lambda>p. if startsWith p (js ''./'') then drop 2 p else p) ps))"

definition example_host :: host where
  "example_host =
     \<lparr>dirname = js ''/app'',
      path_join = example_path_join,
      path_dirname = (\<lambda>p. js ''/app/db/temp/tempStore''),
      JSON_parse = (\<lambda>b. if b = [1] then Some example_store
                         else if b = [2] then Some example_users
                         else if b = [3] then Some example_nameless_store
                         else None),
      StringToNumber = (\<lambda>s. None),
      LocalTZA = 19800000,
      Date_parse = (\<lambda>s. if s = js ''2025-01-30'' then Some 1738195200000
                         else if s = js ''2025-02-01'' then Some 1738368000000
                         else None),
      toLocaleDateString = example_show_date\<rparr>"

text \<open>Services that answer every request; the conversion is done at the third poll. A
  disk with the two documents and the template.\<close>

definition example_services :: services where
  "example_services =
     \<lparr>ssweb = (\<lambda>url device. Some [0xFF, 0xD8]),
      docx_render = (\<lambda>template data fs. Some [0x50, 0x4B]),
      upload = (\<lambda>b. Some (Arr [Obj [(js ''file'', Str (js ''f1.docx''))]])),
      convertToPdf = (\<lambda>d. Some (Obj [(js ''jobId'', Str (js ''job1''))])),
      getJobStatus =
        (\<lambda>jobId n. Some (Obj [(js ''status'',
                                 Str (if n < 3 then js ''processing'' else js ''done''))])),
      downloadJobResult = (\<lambda>jobId. Some [0x25, 0x50, 0x44, 0x46])\<rparr>"

definition example_world :: world where
  "example_world =
     \<lparr>files = [js ''/app/evelodatabase/itineraries.json'' \<mapsto> [1],
               js ''/app/evelodatabase/users.json'' \<mapsto> [2],
               js ''/app/db/temp/template.docx'' \<mapsto> [0x50, 0x4B]],
      dirs = {},
      trace = []\<rparr>"

definition example_nameless_world :: world where
  "example_nameless_world =
     example_world\<lparr>files := (files example_world)
                              (js ''/app/evelodatabase/itineraries.json'' \<mapsto> [3])\<rparr>"

text \<open>A conversion service that never finishes the job, and one that reports the failure
  of the job at the second poll.\<close>

definition example_stalling_services :: services where
  "example_stalling_services =
     example_services\<lparr>getJobStatus :=
       (\<lambda>jobId n. Some (Obj [(js ''status'', Str (js ''processing''))]))\<rparr>"

definition example_failing_services :: services where
  "example_failing_services =
     example_services\<lparr>getJobStatus :=
       (\<lambda>jobId n. Some (Obj [(js ''status'',
                                Str (if n < 2 then js ''processing'' else js ''failed''))]))\<rparr>"

section \<open>Facts about strings and lists\<close>

lemma unat_of_char: "unat (of_char x :: 16 word) = (of_char x :: nat)"
proof -
  have a: "(of_char x :: nat) < 256" by (rule nat_of_char_less_256)
  have b: "(256 :: nat) < 2 ^ LENGTH(16)" by simp
  show ?thesis
    by (rule of_nat_inverse [OF of_nat_of_char less_trans [OF a b]])
qed

lemma of_char_word_inj: "inj (of_char :: char \<Rightarrow> 16 word)"
proof (rule injI)
  fix c d :: char
  assume "(of_char c :: 16 word) = of_char d"
  then have "unat (of_char c :: 16 word) = unat (of_char d :: 16 word)" by (rule arg_cong)
  then have "(of_char c :: nat) = of_char d" by (simp only: unat_of_char)
  then show "c = d" by (rule of_char_eqI)
qed

lemma js_eq_iff [simp]: "js a = js b \<longleftrightarrow> a = b"
  unfolding js_def by (rule inj_map_eq_map [OF of_char_word_inj])

lemma js_Nil_iff [simp]: "js a = [] \<longleftrightarrow> a = []" "[] = js a \<longleftrightarrow> a = []"
  by (auto simp add: js_def)

lemma js_append: "js a @ js b = js (a @ b)"
  by (simp add: js_def)



section \<open>Facts about dates\<close>





section \<open>Facts about formatItineraryData\<close>

lemma formatItineraryData_Inr:
  assumes "formatItineraryData h itin companyInfo shot = Inr out"
  shows "\<exists>days. getp itin (js ''dailyPlans'') = Arr days
           \<and> traverse (iDetailRow_of h (newDate h (getp itin (js ''tourStartDate''))))
                 (enumerate 0 days) = Inr (iDetail out)
           \<and> traverse itbRow_of (enumerate 0 days) = Inr (itbTable out)
           \<and> aTable out = aTable_of days
           \<and> totalNights out =
               Number_toString (map_option (\<lambda>n. n - 1)
                 (ToNumber h (getp itin (js ''numberOfDays''))))
           \<and> totalDays out = ToString (getp itin (js ''numberOfDays''))"
  using assms unfolding formatItineraryData_def Let_def
  by (auto split: if_splits jsval.splits sum.splits)


lemma example_formats:
  "\<exists>out. formatItineraryData example_host example_itinerary example_company shot = Inr out"
  by (simp add: formatItineraryData_def example_itinerary_def example_host_def
      example_company_def nullish_def Let_def example_days_def itbRow_of_def
      iDetailRow_of_def coverImagePath_def companyLogoPath_def)

lemma example_dailyPlans: "getp example_itinerary (js ''dailyPlans'') = Arr example_days"
  by (simp add: example_itinerary_def)


section \<open>The fields of the document\<close>








text \<open>A day with the overnight stay set and a hotel name that is not empty is in the
  accommodation table.\<close>

lemma aTable_of_includes:
  assumes "day \<in> set days" and "truthy (getp day (js ''overnightStay''))"
    and "truthy (hotelName day)"
  shows "\<lparr>aCity = getp day (js ''place''), accomodation = hotelName day\<rparr> \<in> set (aTable_of days)"
  using assms by (auto simp: aTable_of_def hotelName_def js_and_def js_or_def split: if_splits)

text \<open>
  C3: the second day of the example itinerary has the overnight stay set, the hotel
  \<open>custom\<close> and an empty custom hotel, so its hotel name is empty; the accommodation
  table of \<open>formatItineraryData\<close> has a row for it all the same, with the empty name.
  The filter of line 268 tests \<open>day.hotel || day.customHotel\<close>, which the word
  \<open>custom\<close> satisfies, while the text of the overnight stay (line 255) tests the name.
\<close>

theorem aTable_unnamed_custom_hotel:
  "\<exists>out. formatItineraryData example_host example_itinerary example_company (js ''/s.jpg'') = Inr out
     \<and> example_days ! 1 =
         Obj [(js ''place'', Str (js ''Kandy'')),
              (js ''meals'', Obj [(js ''breakfast'', Bool False), (js ''lunch'', Bool False),
                                  (js ''dinner'', Bool False)]),
              (js ''overnightStay'', Bool True), (js ''hotel'', Str (js ''custom'')),
              (js ''customHotel'', Str [])]
     \<and> hotelName (example_days ! 1) = Str []
     \<and> aTable out =
         [\<lparr>aCity = Str (js ''Colombo''), accomodation = Str (js ''Galle Face'')\<rparr>,
          \<lparr>aCity = Str (js ''Kandy''), accomodation = Str []\<rparr>]"
proof -
  obtain out where
    o: "formatItineraryData example_host example_itinerary example_company (js ''/s.jpg'') = Inr out"
    using example_formats by blast
  from formatItineraryData_Inr [OF o] example_dailyPlans
  have "aTable out = aTable_of example_days" by auto
  then have "aTable out =
         [\<lparr>aCity = Str (js ''Colombo''), accomodation = Str (js ''Galle Face'')\<rparr>,
          \<lparr>aCity = Str (js ''Kandy''), accomodation = Str []\<rparr>]"
    by (simp add: aTable_of_def example_days_def hotelName_def js_and_def js_or_def)
  moreover have "hotelName (example_days ! 1) = Str []"
    by (simp add: example_days_def hotelName_def)
  ultimately show ?thesis using o by (auto simp: example_days_def)
qed

section \<open>The route\<close>

text \<open>Three places are encoded between \<open>&start;\<close> and \<open>&end;\<close>, and a single
  place is refused.\<close>

lemma three_place_route:
  "formattedRoute (Str (js ''Colombo - Akkaraipattu - Matara''))
     = Inr (js ''&start;Colombo&Akkaraipattu&end;Matara'')"
  by (simp add: formattedRoute_def js_def startsWith_def is_space_def split_def)

lemma one_place_route: "formattedRoute (Str (js ''Colombo'')) = Inl RouteTooShort"
  by (simp add: formattedRoute_def js_def startsWith_def is_space_def split_def)

text \<open>
  C1: for the route \<open>A - B\<close> the string built by \<open>generateRouteScreenshot\<close> is
  \<open>&start;A&&end;B\<close>, with two ampersands before \<open>end\<close>, and not
  \<open>&start;A&end;B\<close>: the list of the places in between is empty and its join is the
  empty string, between the two ampersands of the template. This is the string put to
  the screenshot service.
\<close>

theorem two_place_route:
  "formattedRoute (Str (js ''A - B'')) = Inr (js ''&start;A&&end;B'')
   \<and> js ''&start;A&&end;B'' \<noteq> js ''&start;A&end;B''
   \<and> trace (snd (generateRouteScreenshot example_host example_services example_world
                    (Str (js ''A - B'')) (js ''itin_1'')))
       = [Capture (js ''https://map-framer-orpin.vercel.app/#&start;A&&end;B'') (js ''phone'')]"
proof -
  have f: "formattedRoute (Str (js ''A - B'')) = Inr (js ''&start;A&&end;B'')"
    by (simp add: formattedRoute_def js_def startsWith_def is_space_def split_def)
  have "trace (snd (generateRouteScreenshot example_host example_services example_world
                    (Str (js ''A - B'')) (js ''itin_1'')))
       = [Capture (js ''https://map-framer-orpin.vercel.app/#&start;A&&end;B'') (js ''phone'')]"
    by (simp add: generateRouteScreenshot_def f captureMapScreenshot_def Let_def
        example_services_def example_world_def record_event_def writeFileSync_def
        mkdirSync_def existsSync_def js_append)
  with f show ?thesis by simp
qed

section \<open>Facts about the pipeline\<close>

lemma find_in_user_None:
  "find_in_user itineraryId userId ps = None \<longleftrightarrow>
     (\<forall>q\<in>set ps. \<not> matches itineraryId (fst q) (snd q))"
  by (induction ps) (auto split: if_splits)

lemma find_itinerary_None:
  "find_itinerary itineraryId us = None \<longleftrightarrow>
     (\<forall>p\<in>set us. truthy (snd p) \<and> isObject (snd p) \<longrightarrow>
        find_in_user itineraryId (fst p) (forin (snd p)) = None)"
  by (induction us) (auto split: option.splits if_splits)

lemma find_itinerary_holds:
  "find_itinerary itineraryId (forin data) = None \<longleftrightarrow> \<not> holds data itineraryId"
  by (auto simp: find_itinerary_None find_in_user_None holds_def)

lemma example_paths:
  "itinerariesPath example_host = js ''/app/evelodatabase/itineraries.json''"
  "usersPath example_host = js ''/app/evelodatabase/users.json''"
  "screenshotsDir example_host = js ''/app/db/img/itinerary''"
  "tempStoreDir example_host = js ''/app/db/temp/tempStore''"
  by (simp_all add: itinerariesPath_def usersPath_def screenshotsDir_def tempStoreDir_def
      example_host_def example_path_join_def startsWith_def js_def)

lemma missing_store:
  assumes "\<not> existsSync w (itinerariesPath h)"
  shows "processItinerary h sv w itineraryId = (Inl ItinerariesFileNotFound, w)"
  using assms by (simp add: processItinerary_def getItineraryById_def readJson_def)

text \<open>
  C7: when the document of the itineraries holds no itinerary that the loops of
  \<open>getItineraryById\<close> accept for the identifier, \<open>processItinerary\<close> throws the
  error of line 25, and the files, the directories and the calls to the services are
  what they were: no screenshot, no document and no request has been made.
\<close>

theorem missing_itinerary:
  assumes "files w (itinerariesPath h) = Some b"
    and "JSON_parse h b = Some data"
    and "\<not> holds data itineraryId"
  shows "processItinerary h sv w itineraryId = (Inl (ItineraryNotFound itineraryId), w)"
proof -
  have "getItineraryById h w itineraryId = Inr None"
    using assms(3)
    by (simp add: getItineraryById_def readJson_def existsSync_def assms(1,2) find_itinerary_holds)
  then show ?thesis by (simp add: processItinerary_def)
qed

text \<open>An identifier that the example document does not hold.\<close>

theorem missing_itinerary_witness:
  "processItinerary example_host example_services example_world (js ''itin_9'')
     = (Inl (ItineraryNotFound (js ''itin_9'')), example_world)"
proof -
  have 1: "files example_world (itinerariesPath example_host) = Some [1]"
    by (simp add: example_paths example_world_def)
  have 2: "JSON_parse example_host [1] = Some example_store"
    by (simp add: example_host_def)
  have 3: "\<not> holds example_store (js ''itin_9'')"
    by (simp add: holds_def example_store_def example_later_record_def matches_def example_record_def example_empty_plans_def
        example_itinerary_def)
  show ?thesis by (rule missing_itinerary [OF 1 2 3])
qed

lemma example_parse:
  "JSON_parse example_host [1] = Some example_store"
  "JSON_parse example_host [2] = Some example_users"
  "JSON_parse example_host [3] = Some example_nameless_store"
  by (simp_all add: example_host_def)

lemma example_reads:
  "readJson example_host example_world (itinerariesPath example_host) e = Inr example_store"
  "readJson example_host example_world (usersPath example_host) e = Inr example_users"
  "readJson example_host example_nameless_world (itinerariesPath example_host) e
     = Inr example_nameless_store"
  "readJson example_host example_nameless_world (usersPath example_host) e = Inr example_users"
  by (simp_all add: readJson_def example_paths example_world_def example_nameless_world_def
      existsSync_def example_parse)

text \<open>The errors of lines 33 and 37.\<close>

lemma find_user_error: "find_user userId us = Inl e \<Longrightarrow> e = TypeError"
  by (induction us) (auto split: if_splits)

lemma getCompanyInfo_error:
  "getCompanyInfo h w userId = Inl e \<Longrightarrow> e \<in> {UsersFileNotFound, ReadFailed, SyntaxError, TypeError}"
  by (auto simp: getCompanyInfo_def readJson_def dest: find_user_error
      split: if_splits option.splits sum.splits jsval.splits)

lemma generateRouteScreenshot_error:
  "generateRouteScreenshot h sv w route itineraryId = (Inl e, w1) \<Longrightarrow>
     e \<in> {InvalidRouteFormat, RouteTooShort, CaptureFailed}"
  by (auto simp: generateRouteScreenshot_def formattedRoute_def captureMapScreenshot_def Let_def
      split: if_splits option.splits sum.splits jsval.splits prod.splits)

lemma traverse_error: "traverse f xs = Inl e \<Longrightarrow> \<exists>x\<in>set xs. f x = Inl e"
  by (induction xs) (auto split: sum.splits)

lemma formatItineraryData_error:
  "formatItineraryData h itin companyInfo shot = Inl e \<Longrightarrow> e = TypeError"
  unfolding formatItineraryData_def Let_def
  by (auto simp: itbRow_of_def iDetailRow_of_def coverImagePath_def companyLogoPath_def Let_def
      dest!: traverse_error split: if_splits sum.splits jsval.splits prod.splits)

lemma generateItineraryDocument_error:
  "generateItineraryDocument h sv w data outputPath = (Inl e, w1) \<Longrightarrow>
     e \<in> {TemplateFileNotFound, MissingParameters, TemplateNotFound, ReadFailed, RenderFailed}"
  by (auto simp: generateItineraryDocument_def generateDocument_def Let_def
      split: if_splits option.splits sum.splits prod.splits)

lemma convertDocxToPdf_error:
  "convertDocxToPdf sv w input output = (Inl e, w1) \<Longrightarrow> \<exists>c. e = ConversionFailed c"
  by (auto simp: convertDocxToPdf_def split: prod.splits sum.splits)

lemma processItinerary_validated:
  assumes "getItineraryById h w itineraryId = Inr (Some it)"
    and "validateFields itineraryId (js_or (getp it (js ''data'')) it) = None"
  shows "fst (processItinerary h sv w itineraryId) \<noteq> Inl (InvalidRoute i)"
    and "fst (processItinerary h sv w itineraryId) \<noteq> Inl (InvalidDailyPlans i)"
  unfolding processItinerary_def Let_def
  using assms
  by (auto split: if_splits option.splits sum.splits prod.splits
      dest: getCompanyInfo_error generateRouteScreenshot_error formatItineraryData_error
        generateItineraryDocument_error convertDocxToPdf_error)


lemma string_value: "isString v \<and> truthy v \<longleftrightarrow> (\<exists>r. r \<noteq> [] \<and> v = Str r)"
  by (cases v) auto

lemma array_value: "isArray v \<and> truthy v \<longleftrightarrow> (\<exists>ps. v = Arr ps)"
  by (cases v) auto

lemma example_found:
  "getItineraryById example_host example_world (js ''itin_2'')
     = Inr (Some (Obj [(js ''id'', Str (js ''itin_2'')), (js ''userId'', Str (js ''7'')),
                       (js ''timestamp'', Str (js ''2025-02-01'')),
                       (js ''data'', example_empty_plans)]))"
  "getItineraryById example_host example_world (js ''itin_3'')
     = Inr (Some (Obj [(js ''id'', Str (js ''itin_3'')),
                       (js ''data'', Obj [(js ''dailyPlans'', Arr [])]),
                       (js ''userId'', Str (js ''8''))]))"
  "getItineraryById example_host example_world (js ''itin_4'')
     = Inr (Some (Obj [(js ''id'', Str (js ''itin_4'')),
                       (js ''data'', Obj [(js ''route'', Str (js ''A - B''))]),
                       (js ''userId'', Str (js ''8''))]))"
  by (simp_all add: getItineraryById_def example_reads example_store_def example_later_record_def matches_def
      with_userId_def example_record_def example_itinerary_def example_empty_plans_def)

section \<open>The validation of the fields\<close>

text \<open>
  C2, as claimed, fails: the second itinerary of the example document has a route and an
  empty list of daily plans; the checks of lines 32 to 38 throw nothing for it, and
  \<open>processItinerary\<close> runs to its end and returns \<open>success\<close>. An empty array is
  truthy, and \<open>Array.isArray\<close> holds for it.
\<close>

theorem empty_plans_pass_validation:
  "getp example_empty_plans (js ''dailyPlans'') = Arr []
   \<and> validateFields (js ''itin_2'') example_empty_plans = None
   \<and> map_sum id success
        (fst (processItinerary example_host example_services example_world (js ''itin_2'')))
       = Inr True"
  by code_simp

text \<open>
  C2, amended: for the payload \<open>d\<close> of a found itinerary, \<open>processItinerary\<close> throws
  the error of line 33 when the route is not a string that is not empty; with such a
  route, it throws the error of line 37 when the daily plans are not an array; both
  leave the files and the services untouched. With such a route and an array of daily
  plans, also an empty one, the checks throw nothing, and no later step throws one of the
  two errors.
\<close>

theorem validation_of_fields:
  assumes "getItineraryById h w itineraryId = Inr (Some it)"
    and "d = js_or (getp it (js ''data'')) it"
  shows "(\<not> (\<exists>r. r \<noteq> [] \<and> getp d (js ''route'') = Str r) \<longrightarrow>
            processItinerary h sv w itineraryId = (Inl (InvalidRoute itineraryId), w))
       \<and> ((\<exists>r. r \<noteq> [] \<and> getp d (js ''route'') = Str r)
            \<and> \<not> (\<exists>ps. getp d (js ''dailyPlans'') = Arr ps) \<longrightarrow>
            processItinerary h sv w itineraryId = (Inl (InvalidDailyPlans itineraryId), w))
       \<and> ((\<exists>r. r \<noteq> [] \<and> getp d (js ''route'') = Str r)
            \<and> (\<exists>ps. getp d (js ''dailyPlans'') = Arr ps) \<longrightarrow>
            validateFields itineraryId d = None
            \<and> fst (processItinerary h sv w itineraryId) \<noteq> Inl (InvalidRoute itineraryId)
            \<and> fst (processItinerary h sv w itineraryId) \<noteq> Inl (InvalidDailyPlans itineraryId))"
proof -
  let ?route = "\<exists>r. r \<noteq> [] \<and> getp d (js ''route'') = Str r"
  let ?plans = "\<exists>ps. getp d (js ''dailyPlans'') = Arr ps"
  have v: "validateFields itineraryId d =
             (if \<not> ?route then Some (InvalidRoute itineraryId)
              else if \<not> ?plans then Some (InvalidDailyPlans itineraryId) else None)"
    unfolding validateFields_def string_value [symmetric] array_value [symmetric] by auto
  have 1: "processItinerary h sv w itineraryId = (Inl (InvalidRoute itineraryId), w)"
    if "\<not> ?route"
    using that by (simp add: processItinerary_def assms(1) assms(2) [symmetric] v)
  have 2: "processItinerary h sv w itineraryId = (Inl (InvalidDailyPlans itineraryId), w)"
    if "?route" "\<not> ?plans"
    using that by (simp add: processItinerary_def assms(1) assms(2) [symmetric] v)
  have 3: "validateFields itineraryId d = None
            \<and> fst (processItinerary h sv w itineraryId) \<noteq> Inl (InvalidRoute itineraryId)
            \<and> fst (processItinerary h sv w itineraryId) \<noteq> Inl (InvalidDailyPlans itineraryId)"
    if "?route" "?plans"
  proof -
    from that have n: "validateFields itineraryId d = None" by (simp add: v)
    with processItinerary_validated [OF assms(1)] assms(2) show ?thesis by simp
  qed
  from 1 2 3 show ?thesis by blast
qed

text \<open>The record without route, the record without daily plans, and the record with
  the empty list of daily plans.\<close>

theorem validation_of_fields_witness:
  "processItinerary example_host example_services example_world (js ''itin_3'')
     = (Inl (InvalidRoute (js ''itin_3'')), example_world)
   \<and> processItinerary example_host example_services example_world (js ''itin_4'')
     = (Inl (InvalidDailyPlans (js ''itin_4'')), example_world)
   \<and> validateFields (js ''itin_2'') example_empty_plans = None
   \<and> fst (processItinerary example_host example_services example_world (js ''itin_2''))
       \<noteq> Inl (InvalidDailyPlans (js ''itin_2''))"
proof -
  have "processItinerary example_host example_services example_world (js ''itin_3'')
     = (Inl (InvalidRoute (js ''itin_3'')), example_world)"
    using validation_of_fields [OF example_found(2) refl, of example_services]
    by (simp add: js_or_def)
  moreover have "processItinerary example_host example_services example_world (js ''itin_4'')
     = (Inl (InvalidDailyPlans (js ''itin_4'')), example_world)"
    using validation_of_fields [OF example_found(3) refl, of example_services]
    by (simp add: js_or_def)
  moreover have "validateFields (js ''itin_2'') example_empty_plans = None
     \<and> fst (processItinerary example_host example_services example_world (js ''itin_2''))
       \<noteq> Inl (InvalidDailyPlans (js ''itin_2''))"
    using validation_of_fields [OF example_found(1) refl, of example_services]
    by (simp add: js_or_def example_empty_plans_def)
  ultimately show ?thesis by blast
qed

section \<open>The user of a found itinerary\<close>

lemma map_of_set_prop: "map_of (set_prop ps k v) k = Some v"
  by (induction ps) auto

lemma getp_with_userId: "getp (with_userId v userId) (js ''userId'') = Str userId"
  by (simp add: with_userId_def map_of_set_prop)

lemma find_in_user_Some:
  "find_in_user itineraryId userId ps = Some r \<Longrightarrow>
     \<exists>q\<in>set ps. matches itineraryId (fst q) (snd q) \<and> r = with_userId (snd q) userId"
  by (induction ps) (auto split: if_splits)

lemma find_itinerary_Some:
  "find_itinerary itineraryId us = Some r \<Longrightarrow>
     \<exists>p\<in>set us. truthy (snd p) \<and> isObject (snd p)
       \<and> (\<exists>q\<in>set (forin (snd p)).
             matches itineraryId (fst q) (snd q) \<and> r = with_userId (snd q) (fst p))"
  by (induction us) (auto split: if_splits option.splits dest: find_in_user_Some)

text \<open>
  C10, as claimed, fails: in the second example document the itinerary is nested under
  the user with the empty name. \<open>getItineraryById\<close> returns it with the empty string
  as \<open>userId\<close>, which is falsy, so line 41 goes on to its third operand, the user
  inferred from the name of the first key; that gives nothing here and line 43 throws.
\<close>

theorem nameless_user_reaches_fallback:
  "getItineraryById example_host example_nameless_world (js ''itin_1'')
     = Inr (Some (with_userId example_empty_plans []))
   \<and> getp (with_userId example_empty_plans []) (js ''userId'') = Str []
   \<and> userIdSource (with_userId example_empty_plans [])
        (js_or (getp (with_userId example_empty_plans []) (js ''data''))
               (with_userId example_empty_plans []))
       = OfKeyNaming
   \<and> processItinerary example_host example_services example_nameless_world (js ''itin_1'')
       = (Inl (NoUserId (js ''itin_1'')), example_nameless_world)"
proof -
  have g: "getItineraryById example_host example_nameless_world (js ''itin_1'')
     = Inr (Some (with_userId example_empty_plans []))"
    by (simp add: getItineraryById_def example_reads example_nameless_store_def matches_def)
  have w: "with_userId example_empty_plans []
     = Obj [(js ''route'', Str (js ''A - B'')), (js ''numberOfDays'', Num 1),
            (js ''dailyPlans'', Arr []), (js ''userId'', Str [])]"
    by (simp add: with_userId_def example_empty_plans_def)
  have s: "userIdSource (with_userId example_empty_plans [])
        (js_or (getp (with_userId example_empty_plans []) (js ''data''))
               (with_userId example_empty_plans []))
       = OfKeyNaming"
    by (simp add: w userIdSource_def js_or_def)
  have k: "keyFallback (Obj [(js ''route'', Str (js ''A - B'')), (js ''numberOfDays'', Num 1),
            (js ''dailyPlans'', Arr []), (js ''userId'', Str [])]) = Undefined"
    by (simp add: keyFallback_def split_def startsWith_def js_def)
  have "processItinerary example_host example_services example_nameless_world (js ''itin_1'')
       = (Inl (NoUserId (js ''itin_1'')), example_nameless_world)"
    by (simp add: processItinerary_def g w js_or_def validateFields_def resolveUserId_def k
        Let_def)
  with g s show ?thesis by (simp add: getp_with_userId)
qed

text \<open>
  C10, amended: an itinerary that \<open>getItineraryById\<close> returns is a value \<open>v\<close> of
  the document, found under a user key and an accepted itinerary key, with its
  \<open>userId\<close> set to that user key, whatever \<open>userId\<close> the value \<open>v\<close> had; and
  when the user key is not the empty string, line 41 takes the user from
  \<open>itinerary.userId\<close> and the fallback on the key names is not reached.
\<close>

theorem found_userId:
  assumes "getItineraryById h w itineraryId = Inr (Some it)"
  shows "\<exists>b data. files w (itinerariesPath h) = Some b \<and> JSON_parse h b = Some data
           \<and> (\<exists>p\<in>set (forin data). \<exists>q\<in>set (forin (snd p)).
                 matches itineraryId (fst q) (snd q)
                 \<and> it = with_userId (snd q) (fst p)
                 \<and> getp it (js ''userId'') = Str (fst p)
                 \<and> (fst p \<noteq> [] \<longrightarrow>
                      userIdSource it (js_or (getp it (js ''data'')) it) = OfItinerary
                      \<and> resolveUserId it (js_or (getp it (js ''data'')) it) = Str (fst p)))"
proof -
  from assms obtain b data where b: "files w (itinerariesPath h) = Some b"
    and d: "JSON_parse h b = Some data"
    and f: "find_itinerary itineraryId (forin data) = Some it"
    by (auto simp: getItineraryById_def readJson_def split: if_splits option.splits sum.splits)
  from find_itinerary_Some [OF f] obtain p q where p: "p \<in> set (forin data)"
    and q: "q \<in> set (forin (snd p))" and m: "matches itineraryId (fst q) (snd q)"
    and it: "it = with_userId (snd q) (fst p)"
    by blast
  have u: "getp it (js ''userId'') = Str (fst p)"
    by (simp add: it getp_with_userId)
  have "userIdSource it (js_or (getp it (js ''data'')) it) = OfItinerary
        \<and> resolveUserId it (js_or (getp it (js ''data'')) it) = Str (fst p)"
    if "fst p \<noteq> []"
    using that by (simp add: userIdSource_def resolveUserId_def u js_or_def)
  with b d p q m it u show ?thesis by blast
qed

text \<open>The record stored under the user \<open>7\<close> that names the user \<open>9\<close>.\<close>

theorem found_userId_witness:
  "getItineraryById example_host example_world (js ''itin_2'')
     = Inr (Some (with_userId
                    (Obj [(js ''id'', Str (js ''itin_2'')), (js ''userId'', Str (js ''9'')),
                          (js ''timestamp'', Str (js ''2025-02-01'')),
                          (js ''data'', example_empty_plans)])
                    (js ''7'')))
   \<and> resolveUserId
        (with_userId
           (Obj [(js ''id'', Str (js ''itin_2'')), (js ''userId'', Str (js ''9'')),
                 (js ''timestamp'', Str (js ''2025-02-01'')),
                 (js ''data'', example_empty_plans)])
           (js ''7''))
        example_empty_plans
       = Str (js ''7'')"
proof -
  let ?v = "Obj [(js ''id'', Str (js ''itin_2'')), (js ''userId'', Str (js ''9'')),
                 (js ''timestamp'', Str (js ''2025-02-01'')),
                 (js ''data'', example_empty_plans)]"
  have g: "getItineraryById example_host example_world (js ''itin_2'')
             = Inr (Some (with_userId ?v (js ''7'')))"
    by (simp add: example_found with_userId_def)
  have d: "js_or (getp (with_userId ?v (js ''7'')) (js ''data'')) (with_userId ?v (js ''7''))
             = example_empty_plans"
    by (simp add: with_userId_def js_or_def example_empty_plans_def)
  from found_userId [OF g] have "\<exists>k.
    getp (with_userId ?v (js ''7'')) (js ''userId'') = Str k
    \<and> (k \<noteq> [] \<longrightarrow> resolveUserId (with_userId ?v (js ''7''))
        (js_or (getp (with_userId ?v (js ''7'')) (js ''data'')) (with_userId ?v (js ''7'')))
       = Str k)"
    by (elim exE conjE bexE) (rule exI, rule conjI, assumption, simp)
  then have "resolveUserId (with_userId ?v (js ''7'')) example_empty_plans = Str (js ''7'')"
    by (simp add: getp_with_userId d)
  with g show ?thesis by simp
qed

section \<open>Facts about the polling loop\<close>

lemma polled_Suc: "polled jobId (Suc n) = [Sleep 2000, GetJobStatus jobId] @ polled jobId n"
  by (simp add: polled_def)

lemma length_polled: "length (polled jobId n) = 2 * n"
  by (induction n) (simp_all add: polled_def)

lemma download_not_polled: "DownloadJobResult j \<notin> set (polled jobId n)"
  by (induction n) (simp_all add: polled_def)

text \<open>The loop stops at the first answer that is not \<open>Converting\<close>, or at the
  ceiling.\<close>

lemma poll_find:
  "attempts < maxAttempts \<Longrightarrow>
   poll sv jobId attempts w =
     (case find (\<lambda>n. answer_of sv jobId n \<noteq> Converting) [Suc attempts..<Suc maxAttempts] of
        None \<Rightarrow> (Inl ConversionTimeout,
                 w\<lparr>trace := trace w @ polled jobId (maxAttempts - attempts)\<rparr>)
      | Some n \<Rightarrow> (outcome (answer_of sv jobId n),
                   w\<lparr>trace := trace w @ polled jobId (n - attempts)\<rparr>))"
proof (induction sv jobId attempts w rule: poll.induct)
  case (1 sv jobId attempts w)
  let ?w1 = "record_event (record_event w (Sleep 2000)) (GetJobStatus jobId)"
  have upt: "[Suc attempts..<Suc maxAttempts] = Suc attempts # [Suc (Suc attempts)..<Suc maxAttempts]"
    using "1.prems" by (simp add: upt_conv_Cons del: upt_Suc)
  have w1: "?w1 = w\<lparr>trace := trace w @ polled jobId 1\<rparr>"
    by (simp add: record_event_def polled_def)
  show ?case
  proof (cases "answer_of sv jobId (Suc attempts)")
    case Converting
    then obtain data where d: "getJobStatus sv jobId (Suc attempts) = Some data"
      and nd: "opt_chain data (js ''status'') \<noteq> Str (js ''done'')"
      and nf: "opt_chain data (js ''status'') \<noteq> Str (js ''failed'')"
      by (auto simp: answer_of_def split: option.splits if_splits)
    show ?thesis
    proof (cases "Suc attempts = maxAttempts")
      case True
      then have one: "maxAttempts - attempts = Suc 0" by arith
      have rhs: "find (\<lambda>n. answer_of sv jobId n \<noteq> Converting)
                   [Suc attempts..<Suc maxAttempts] = None"
        using True Converting by simp
      have lhs: "poll sv jobId attempts w = (Inl ConversionTimeout, ?w1)"
        using "1.prems" True d nd nf by (subst poll.simps) (simp add: Let_def)
      show ?thesis
        unfolding lhs rhs by (simp add: w1 one)
    next
      case False
      with "1.prems" have lt: "Suc attempts < maxAttempts" by simp
      have ih: "poll sv jobId (Suc attempts) ?w1 =
        (case find (\<lambda>n. answer_of sv jobId n \<noteq> Converting) [Suc (Suc attempts)..<Suc maxAttempts] of
           None \<Rightarrow> (Inl ConversionTimeout,
                    ?w1\<lparr>trace := trace ?w1 @ polled jobId (maxAttempts - Suc attempts)\<rparr>)
         | Some n \<Rightarrow> (outcome (answer_of sv jobId n),
                      ?w1\<lparr>trace := trace ?w1 @ polled jobId (n - Suc attempts)\<rparr>))"
      proof -
        from d have d': "getJobStatus sv jobId (attempts + 1) = Some data" by simp
        from False have ne: "attempts + 1 \<noteq> maxAttempts" by simp
        from lt have lt': "attempts + 1 < maxAttempts" by simp
        from "1.IH" [OF "1.prems" refl refl d' nd nf ne lt'] show ?thesis
          by (simp only: Suc_eq_plus1)
      qed
      have a: "maxAttempts - attempts = Suc (maxAttempts - Suc attempts)"
        using lt by simp
      have b: "n - attempts = Suc (n - Suc attempts)"
        if "find (\<lambda>n. answer_of sv jobId n \<noteq> Converting) [Suc (Suc attempts)..<Suc maxAttempts] = Some n"
        for n
      proof -
        from that have "n \<in> set [Suc (Suc attempts)..<Suc maxAttempts]"
          by (metis find_Some_iff nth_mem)
        then have "Suc (Suc attempts) \<le> n" by (simp del: upt_Suc)
        then show ?thesis by arith
      qed
      have step: "poll sv jobId attempts w = poll sv jobId (Suc attempts) ?w1"
        using "1.prems" d nd nf False by (subst poll.simps) (simp add: Let_def)
      have tail: "find (\<lambda>n. answer_of sv jobId n \<noteq> Converting) [Suc attempts..<Suc maxAttempts]
                = find (\<lambda>n. answer_of sv jobId n \<noteq> Converting)
                    [Suc (Suc attempts)..<Suc maxAttempts]"
        unfolding upt using Converting by simp
      show ?thesis
      proof (cases "find (\<lambda>n. answer_of sv jobId n \<noteq> Converting)
                      [Suc (Suc attempts)..<Suc maxAttempts]")
        case None
        then show ?thesis
          unfolding step ih tail by (simp add: record_event_def a polled_Suc)
      next
        case (Some n)
        then show ?thesis
          unfolding step ih tail by (simp add: record_event_def b [OF Some] polled_Suc)
      qed
    qed
  next
    case Done
    then show ?thesis
      using "1.prems"
      by (subst poll.simps)
         (auto simp: Let_def upt w1 answer_of_def simp del: upt_Suc
            split: option.splits if_splits)
  next
    case Failed
    then show ?thesis
      using "1.prems"
      by (subst poll.simps)
         (auto simp: Let_def upt w1 answer_of_def simp del: upt_Suc
            split: option.splits if_splits)
  next
    case Rejected
    then show ?thesis
      using "1.prems"
      by (subst poll.simps)
         (auto simp: Let_def upt w1 answer_of_def simp del: upt_Suc
            split: option.splits if_splits)
  qed
qed


text \<open>The first number from 1 to \<open>N\<close> with a property.\<close>

lemma find_first:
  assumes "1 \<le> n" "n \<le> N" "P n" "\<forall>m. 1 \<le> m \<and> m < n \<longrightarrow> \<not> P m"
  shows "find P [1..<Suc N] = Some n"
proof -
  have "\<exists>i<length [1..<Suc N]. P ([1..<Suc N] ! i) \<and> n = [1..<Suc N] ! i
          \<and> (\<forall>j<i. \<not> P ([1..<Suc N] ! j))"
    using assms by (intro exI [of _ "n - 1"]) (auto simp del: upt_Suc)
  then show ?thesis by (simp only: find_Some_iff)
qed

lemma find_bounds:
  assumes "find P [1..<Suc N] = Some n"
  shows "1 \<le> n" "n \<le> N" "P n"
proof -
  from assms obtain i where i: "i < length [1..<Suc N]" "P ([1..<Suc N] ! i)"
    "n = [1..<Suc N] ! i"
    unfolding find_Some_iff by blast
  then show "1 \<le> n" "n \<le> N" "P n" by (auto simp del: upt_Suc)
qed

lemma find_none:
  "find P [1..<Suc N] = None \<longleftrightarrow> (\<forall>n. 1 \<le> n \<and> n \<le> N \<longrightarrow> \<not> P n)"
  by (auto simp: find_None_iff simp del: upt_Suc)

text \<open>The run of a conversion whose job has started.\<close>

lemma convert_started:
  assumes "files w input = Some content"
    and "output \<noteq> []" and "endsWith output (js ''.pdf'')"
    and "job_started sv content fileInfo jobId"
    and "started = trace w @ [Upload input, ConvertToPdf (fileDescription fileInfo)]"
  shows "convert_body sv w input output =
    (case find (\<lambda>n. answer_of sv jobId n \<noteq> Converting) [1..<Suc maxAttempts] of
       None \<Rightarrow> (Inl ConversionTimeout, w\<lparr>trace := started @ polled jobId maxAttempts\<rparr>)
     | Some n \<Rightarrow>
         (case answer_of sv jobId n of
            Done \<Rightarrow>
              (case downloadJobResult sv jobId of
                 None \<Rightarrow> (Inl RequestFailed,
                          w\<lparr>trace := started @ polled jobId n @ [DownloadJobResult jobId]\<rparr>)
               | Some pdf \<Rightarrow> (Inr (),
                          w\<lparr>trace := started @ polled jobId n @ [DownloadJobResult jobId],
                            files := (files w)(output \<mapsto> pdf)\<rparr>))
          | a \<Rightarrow> (outcome a, w\<lparr>trace := started @ polled jobId n\<rparr>)))"
proof -
  from assms(4) obtain others cdata where
    u: "upload sv content = Some (Arr (fileInfo # others))" and nn: "\<not> nullish fileInfo"
    and c: "convertToPdf sv (fileDescription fileInfo) = Some cdata"
    and j: "jobId = getp cdata (js ''jobId'')" and t: "truthy jobId"
    by (auto simp: job_started_def split: option.splits jsval.splits list.splits)
  from t j have oc: "opt_chain cdata (js ''jobId'') = jobId"
    by (cases cdata) (auto simp: opt_chain_def nullish_def)
  let ?w2 = "record_event (record_event w (Upload input))
               (ConvertToPdf (fileDescription fileInfo))"
  have w2: "?w2 = w\<lparr>trace := started\<rparr>"
    by (simp add: record_event_def assms(5))
  have ex: "existsSync w input" by (simp add: existsSync_def assms(1))
  have body: "convert_body sv w input output =
     (case poll sv jobId 0 ?w2 of
        (Inl e, w3) \<Rightarrow> (Inl e, w3)
      | (Inr u, w3) \<Rightarrow>
          let w4 = record_event w3 (DownloadJobResult jobId)
          in (case downloadJobResult sv jobId of
                None \<Rightarrow> (Inl RequestFailed, w4)
              | Some pdf \<Rightarrow> (Inr (), writeFileSync w4 output pdf)))"
    using ex assms(2,3) nn t
    by (simp add: convert_body_def assms(1) u c oc Let_def j [symmetric])
  have pos: "0 < maxAttempts" by (simp add: maxAttempts_def)
  have p: "poll sv jobId 0 ?w2 =
     (case find (\<lambda>n. answer_of sv jobId n \<noteq> Converting) [1..<Suc maxAttempts] of
        None \<Rightarrow> (Inl ConversionTimeout, w\<lparr>trace := started @ polled jobId maxAttempts\<rparr>)
      | Some n \<Rightarrow> (outcome (answer_of sv jobId n), w\<lparr>trace := started @ polled jobId n\<rparr>))"
    unfolding w2 poll_find [OF pos]
    by (simp split: option.splits del: upt_Suc)
  show ?thesis
  proof (cases "find (\<lambda>n. answer_of sv jobId n \<noteq> Converting) [1..<Suc maxAttempts]")
    case None
    then show ?thesis unfolding body p by simp
  next
    case (Some n)
    then show ?thesis
      unfolding body p
      by (cases "answer_of sv jobId n")
         (simp_all add: Let_def record_event_def writeFileSync_def split: option.splits)
  qed
qed

lemma find_before:
  assumes "find P [1..<Suc N] = Some n" and "1 \<le> m" and "m < n"
  shows "\<not> P m"
proof -
  from assms(1) obtain i where i: "i < length [1..<Suc N]" "n = [1..<Suc N] ! i"
    and before: "\<forall>j<i. \<not> P ([1..<Suc N] ! j)"
    unfolding find_Some_iff by blast
  from i have n: "n = 1 + i" and iN: "i < N" by (simp_all del: upt_Suc)
  from assms(2,3) n have "m - 1 < i" by arith
  with before have "\<not> P ([1..<Suc N] ! (m - 1))" by blast
  moreover have "[1..<Suc N] ! (m - 1) = m"
    using assms(2) \<open>m - 1 < i\<close> iN by (simp del: upt_Suc)
  ultimately show ?thesis by simp
qed

text \<open>
  C8: for a conversion whose input file exists. The ceiling of the loop is 30 attempts.
  An output path that is empty or does not end in \<open>.pdf\<close> is refused with the error
  of line 122 and the world is unchanged: nothing has been asked of the service. When the
  path is accepted and the job has started (the upload and the conversion request were
  answered, with a job identifier), the calls after the two requests are \<open>n\<close> rounds of
  a pause of 2000 milliseconds and a status request, for an \<open>n\<close> from 1 to 30, and
  then at most the download. When all 30 answers leave the job converting, the error is
  the timeout, after 30 rounds. When the \<open>n\<close>-th answer is the first that does not,
  and says \<open>failed\<close>, the error is the failure on the server, after \<open>n\<close> rounds;
  when it says \<open>done\<close>, the download follows the \<open>n\<close>-th round. And a download
  was requested only if an answer from 1 to 30 said \<open>done\<close>, all answers before it
  leaving the job converting, the download coming right after that round.
\<close>

theorem conversion_polling:
  assumes "files w inputFilePath = Some content"
    and "convertDocxToPdf sv w inputFilePath outputFilePath = (r, w')"
  shows "maxAttempts = 30
    \<and> (outputFilePath = [] \<or> \<not> endsWith outputFilePath (js ''.pdf'') \<longrightarrow>
          r = Inl (ConversionFailed OutputNotPdf) \<and> w' = w)
    \<and> (\<forall>fileInfo jobId started.
          outputFilePath \<noteq> [] \<and> endsWith outputFilePath (js ''.pdf'')
          \<and> job_started sv content fileInfo jobId
          \<and> started = trace w @ [Upload inputFilePath, ConvertToPdf (fileDescription fileInfo)]
          \<longrightarrow>
            (\<exists>n. 1 \<le> n \<and> n \<le> maxAttempts
               \<and> (trace w' = started @ polled jobId n
                  \<or> trace w' = started @ polled jobId n @ [DownloadJobResult jobId]))
          \<and> ((\<forall>n. 1 \<le> n \<and> n \<le> maxAttempts \<longrightarrow> answer_of sv jobId n = Converting) \<longrightarrow>
                r = Inl (ConversionFailed ConversionTimeout)
                \<and> trace w' = started @ polled jobId maxAttempts)
          \<and> (\<forall>n. 1 \<le> n \<and> n \<le> maxAttempts \<and> answer_of sv jobId n = Failed
                 \<and> (\<forall>m. 1 \<le> m \<and> m < n \<longrightarrow> answer_of sv jobId m = Converting) \<longrightarrow>
                r = Inl (ConversionFailed FailedOnServer)
                \<and> trace w' = started @ polled jobId n)
          \<and> (\<forall>n. 1 \<le> n \<and> n \<le> maxAttempts \<and> answer_of sv jobId n = Done
                 \<and> (\<forall>m. 1 \<le> m \<and> m < n \<longrightarrow> answer_of sv jobId m = Converting) \<longrightarrow>
                trace w' = started @ polled jobId n @ [DownloadJobResult jobId])
          \<and> (DownloadJobResult jobId \<in> set (drop (length (trace w)) (trace w')) \<longrightarrow>
                (\<exists>n. 1 \<le> n \<and> n \<le> maxAttempts \<and> answer_of sv jobId n = Done
                   \<and> (\<forall>m. 1 \<le> m \<and> m < n \<longrightarrow> answer_of sv jobId m = Converting)
                   \<and> trace w' = started @ polled jobId n @ [DownloadJobResult jobId])))"
proof -
  have A: "maxAttempts = 30" by (simp add: maxAttempts_def)
  have B: "r = Inl (ConversionFailed OutputNotPdf) \<and> w' = w"
    if "outputFilePath = [] \<or> \<not> endsWith outputFilePath (js ''.pdf'')"
  proof -
    from that have "convert_body sv w inputFilePath outputFilePath = (Inl OutputNotPdf, w)"
      using assms(1) by (auto simp: convert_body_def existsSync_def)
    with assms(2) show ?thesis by (simp add: convertDocxToPdf_def)
  qed
  have C: "(\<exists>n. 1 \<le> n \<and> n \<le> maxAttempts
               \<and> (trace w' = started @ polled jobId n
                  \<or> trace w' = started @ polled jobId n @ [DownloadJobResult jobId]))
          \<and> ((\<forall>n. 1 \<le> n \<and> n \<le> maxAttempts \<longrightarrow> answer_of sv jobId n = Converting) \<longrightarrow>
                r = Inl (ConversionFailed ConversionTimeout)
                \<and> trace w' = started @ polled jobId maxAttempts)
          \<and> (\<forall>n. 1 \<le> n \<and> n \<le> maxAttempts \<and> answer_of sv jobId n = Failed
                 \<and> (\<forall>m. 1 \<le> m \<and> m < n \<longrightarrow> answer_of sv jobId m = Converting) \<longrightarrow>
                r = Inl (ConversionFailed FailedOnServer)
                \<and> trace w' = started @ polled jobId n)
          \<and> (\<forall>n. 1 \<le> n \<and> n \<le> maxAttempts \<and> answer_of sv jobId n = Done
                 \<and> (\<forall>m. 1 \<le> m \<and> m < n \<longrightarrow> answer_of sv jobId m = Converting) \<longrightarrow>
                trace w' = started @ polled jobId n @ [DownloadJobResult jobId])
          \<and> (DownloadJobResult jobId \<in> set (drop (length (trace w)) (trace w')) \<longrightarrow>
                (\<exists>n. 1 \<le> n \<and> n \<le> maxAttempts \<and> answer_of sv jobId n = Done
                   \<and> (\<forall>m. 1 \<le> m \<and> m < n \<longrightarrow> answer_of sv jobId m = Converting)
                   \<and> trace w' = started @ polled jobId n @ [DownloadJobResult jobId]))"
    if a: "outputFilePath \<noteq> [] \<and> endsWith outputFilePath (js ''.pdf'')
          \<and> job_started sv content fileInfo jobId
          \<and> started = trace w @ [Upload inputFilePath, ConvertToPdf (fileDescription fileInfo)]"
    for fileInfo jobId started
  proof -
    let ?P = "\<lambda>n. answer_of sv jobId n \<noteq> Converting"
    let ?f = "find ?P [1..<Suc maxAttempts]"
    from a have st: "started = trace w @ [Upload inputFilePath, ConvertToPdf (fileDescription fileInfo)]"
      by simp
    from a have o1: "outputFilePath \<noteq> []" and o2: "endsWith outputFilePath (js ''.pdf'')"
      and js: "job_started sv content fileInfo jobId" by simp_all
    note body = convert_started [OF assms(1) o1 o2 js st]
    have none: "r = Inl (ConversionFailed ConversionTimeout)
                \<and> trace w' = started @ polled jobId maxAttempts"
      if "?f = None"
      using assms(2) that by (auto simp: convertDocxToPdf_def body)
    have some_other: "r = Inl (ConversionFailed e) \<and> trace w' = started @ polled jobId n"
      if "?f = Some n" "answer_of sv jobId n \<noteq> Done" "outcome (answer_of sv jobId n) = Inl e"
      for n e
      using assms(2) that
      by (cases "answer_of sv jobId n") (auto simp: convertDocxToPdf_def body)
    have some_done: "trace w' = started @ polled jobId n @ [DownloadJobResult jobId]"
      if "?f = Some n" "answer_of sv jobId n = Done" for n
      using assms(2) that
      by (auto simp: convertDocxToPdf_def body split: option.splits)
    have pos: "1 \<le> maxAttempts" by (simp add: maxAttempts_def)
    have c1: "\<exists>n. 1 \<le> n \<and> n \<le> maxAttempts
               \<and> (trace w' = started @ polled jobId n
                  \<or> trace w' = started @ polled jobId n @ [DownloadJobResult jobId])"
    proof (cases ?f)
      case None
      with none pos show ?thesis by blast
    next
      case (Some n)
      note b = find_bounds [OF Some]
      show ?thesis
      proof (cases "answer_of sv jobId n = Done")
        case True
        with some_done [OF Some] b show ?thesis by blast
      next
        case False
        moreover from False b(3) obtain e where "outcome (answer_of sv jobId n) = Inl e"
          by (cases "answer_of sv jobId n") auto
        ultimately show ?thesis using some_other [OF Some] b by blast
      qed
    qed
    have c2: "r = Inl (ConversionFailed ConversionTimeout)
          \<and> trace w' = started @ polled jobId maxAttempts"
      if "\<forall>n. 1 \<le> n \<and> n \<le> maxAttempts \<longrightarrow> answer_of sv jobId n = Converting"
    proof -
      from that have "?f = None" unfolding find_none by blast
      then show ?thesis by (rule none)
    qed
    have c3: "r = Inl (ConversionFailed FailedOnServer) \<and> trace w' = started @ polled jobId n"
      if "1 \<le> n \<and> n \<le> maxAttempts \<and> answer_of sv jobId n = Failed
          \<and> (\<forall>m. 1 \<le> m \<and> m < n \<longrightarrow> answer_of sv jobId m = Converting)" for n
    proof -
      from that have "?f = Some n" by (intro find_first) auto
      then show ?thesis using that by (intro some_other) auto
    qed
    have c5: "trace w' = started @ polled jobId n @ [DownloadJobResult jobId]"
      if "1 \<le> n \<and> n \<le> maxAttempts \<and> answer_of sv jobId n = Done
          \<and> (\<forall>m. 1 \<le> m \<and> m < n \<longrightarrow> answer_of sv jobId m = Converting)" for n
    proof -
      from that have "?f = Some n" by (intro find_first) auto
      then show ?thesis using that by (intro some_done) auto
    qed
    have c4: "\<exists>n. 1 \<le> n \<and> n \<le> maxAttempts \<and> answer_of sv jobId n = Done
             \<and> (\<forall>m. 1 \<le> m \<and> m < n \<longrightarrow> answer_of sv jobId m = Converting)
             \<and> trace w' = started @ polled jobId n @ [DownloadJobResult jobId]"
      if d: "DownloadJobResult jobId \<in> set (drop (length (trace w)) (trace w'))"
    proof (cases ?f)
      case None
      from none [OF None] d st show ?thesis by (simp add: download_not_polled)
    next
      case (Some n)
      note b = find_bounds [OF Some]
      show ?thesis
      proof (cases "answer_of sv jobId n = Done")
        case True
        have "\<forall>m. 1 \<le> m \<and> m < n \<longrightarrow> answer_of sv jobId m = Converting"
          using find_before [OF Some] by auto
        with True some_done [OF Some True] b show ?thesis by blast
      next
        case False
        moreover from False b(3) obtain e where "outcome (answer_of sv jobId n) = Inl e"
          by (cases "answer_of sv jobId n") auto
        ultimately have "trace w' = started @ polled jobId n"
          using some_other [OF Some] by blast
        with d st show ?thesis by (simp add: download_not_polled)
      qed
    qed
    from c1 c2 c3 c5 c4 show ?thesis by blast
  qed
  show ?thesis
  proof (rule conjI [OF A], rule conjI)
    show "outputFilePath = [] \<or> \<not> endsWith outputFilePath (js ''.pdf'') \<longrightarrow>
            r = Inl (ConversionFailed OutputNotPdf) \<and> w' = w"
      using B by blast
  qed (intro allI impI, rule C, assumption)
qed

lemma example_job:
  "job_started example_services [0x50, 0x4B] (Obj [(js ''file'', Str (js ''f1.docx''))])
     (Str (js ''job1''))"
  "job_started example_stalling_services [0x50, 0x4B] (Obj [(js ''file'', Str (js ''f1.docx''))])
     (Str (js ''job1''))"
  "job_started example_failing_services [0x50, 0x4B] (Obj [(js ''file'', Str (js ''f1.docx''))])
     (Str (js ''job1''))"
  by (simp_all add: job_started_def example_services_def example_stalling_services_def
      example_failing_services_def nullish_def fileDescription_def)

lemma example_answers:
  "answer_of example_stalling_services jobId n = Converting"
  "answer_of example_failing_services jobId n = (if n < 2 then Converting else Failed)"
  "answer_of example_services jobId n = (if n < 3 then Converting else Done)"
  by (simp_all add: answer_of_def example_services_def example_stalling_services_def
      example_failing_services_def opt_chain_def nullish_def)

text \<open>A refused output path, a job that never finishes, a job that fails at the second
  poll and a job that is done at the third.\<close>

theorem conversion_polling_witness:
  "convertDocxToPdf example_services example_world (js ''/app/db/temp/template.docx'')
       (js ''/app/out.txt'')
     = (Inl (ConversionFailed OutputNotPdf), example_world)
   \<and> fst (convertDocxToPdf example_stalling_services example_world
         (js ''/app/db/temp/template.docx'') (js ''/app/out.pdf''))
     = Inl (ConversionFailed ConversionTimeout)
   \<and> trace (snd (convertDocxToPdf example_stalling_services example_world
         (js ''/app/db/temp/template.docx'') (js ''/app/out.pdf'')))
     = [Upload (js ''/app/db/temp/template.docx''),
        ConvertToPdf (fileDescription (Obj [(js ''file'', Str (js ''f1.docx''))]))]
       @ polled (Str (js ''job1'')) 30
   \<and> fst (convertDocxToPdf example_failing_services example_world
         (js ''/app/db/temp/template.docx'') (js ''/app/out.pdf''))
     = Inl (ConversionFailed FailedOnServer)
   \<and> trace (snd (convertDocxToPdf example_failing_services example_world
         (js ''/app/db/temp/template.docx'') (js ''/app/out.pdf'')))
     = [Upload (js ''/app/db/temp/template.docx''),
        ConvertToPdf (fileDescription (Obj [(js ''file'', Str (js ''f1.docx''))]))]
       @ polled (Str (js ''job1'')) 2
   \<and> trace (snd (convertDocxToPdf example_services example_world
         (js ''/app/db/temp/template.docx'') (js ''/app/out.pdf'')))
     = [Upload (js ''/app/db/temp/template.docx''),
        ConvertToPdf (fileDescription (Obj [(js ''file'', Str (js ''f1.docx''))]))]
       @ polled (Str (js ''job1'')) 3 @ [DownloadJobResult (Str (js ''job1''))]"
proof -
  let ?inp = "js ''/app/db/temp/template.docx''"
  let ?fi = "Obj [(js ''file'', Str (js ''f1.docx''))]"
  let ?j = "Str (js ''job1'')"
  let ?st = "[Upload ?inp, ConvertToPdf (fileDescription ?fi)]"
  have f: "files example_world ?inp = Some [0x50, 0x4B]"
    by (simp add: example_world_def)
  have st: "?st = trace example_world @ ?st"
    by (simp add: example_world_def)
  have pdf: "js ''/app/out.pdf'' \<noteq> []" "endsWith (js ''/app/out.pdf'') (js ''.pdf'')"
    by (simp_all add: endsWith_def js_def)
  have bad: "js ''/app/out.txt'' = [] \<or> \<not> endsWith (js ''/app/out.txt'') (js ''.pdf'')"
    by (simp add: endsWith_def js_def)
  have m: "maxAttempts = 30" by (simp add: maxAttempts_def)
  have 1: "convertDocxToPdf example_services example_world ?inp (js ''/app/out.txt'')
             = (Inl (ConversionFailed OutputNotPdf), example_world)"
    using conversion_polling [OF f surjective_pairing, where sv = example_services
        and outputFilePath = "js ''/app/out.txt''"]
      bad
    by (metis prod.collapse)
  have 2: "fst (convertDocxToPdf example_stalling_services example_world ?inp (js ''/app/out.pdf''))
             = Inl (ConversionFailed ConversionTimeout)
     \<and> trace (snd (convertDocxToPdf example_stalling_services example_world ?inp
                     (js ''/app/out.pdf'')))
             = ?st @ polled ?j 30"
    using conversion_polling [OF f surjective_pairing, where sv = example_stalling_services
        and outputFilePath = "js ''/app/out.pdf''"] pdf example_job(2) st
    by (simp add: example_answers m)
  have 3: "fst (convertDocxToPdf example_failing_services example_world ?inp (js ''/app/out.pdf''))
             = Inl (ConversionFailed FailedOnServer)
     \<and> trace (snd (convertDocxToPdf example_failing_services example_world ?inp
                     (js ''/app/out.pdf'')))
             = ?st @ polled ?j 2"
  proof -
    have a: "1 \<le> (2::nat) \<and> 2 \<le> maxAttempts
        \<and> answer_of example_failing_services ?j 2 = Failed
        \<and> (\<forall>m. 1 \<le> m \<and> m < 2 \<longrightarrow> answer_of example_failing_services ?j m = Converting)"
      by (simp add: example_answers m)
    from conversion_polling [OF f surjective_pairing, where sv = example_failing_services
        and outputFilePath = "js ''/app/out.pdf''"] pdf example_job(3) st a
    show ?thesis by blast
  qed
  have 4: "trace (snd (convertDocxToPdf example_services example_world ?inp
                     (js ''/app/out.pdf'')))
             = ?st @ polled ?j 3 @ [DownloadJobResult ?j]"
  proof -
    have a: "1 \<le> (3::nat) \<and> 3 \<le> maxAttempts
        \<and> answer_of example_services ?j 3 = Done
        \<and> (\<forall>m. 1 \<le> m \<and> m < 3 \<longrightarrow> answer_of example_services ?j m = Converting)"
      by (simp add: example_answers m)
    from conversion_polling [OF f surjective_pairing, where sv = example_services
        and outputFilePath = "js ''/app/out.pdf''"] pdf example_job(1) st a
    show ?thesis by blast
  qed
  from 1 2 3 4 show ?thesis by blast
qed

section \<open>Facts about the sort\<close>

lemma mset_insert_sorted: "mset (insert_sorted cmp x ys) = {#x#} + mset ys"
  by (induction ys) auto

lemma mset_js_sort: "mset (js_sort cmp xs) = mset xs"
  by (induction xs) (simp_all add: js_sort_def mset_insert_sorted)

lemma set_insert_sorted: "set (insert_sorted cmp x ys) = insert x (set ys)"
  using mset_insert_sorted [of cmp x ys, THEN arg_cong, of set_mset] by simp

lemma set_js_sort: "set (js_sort cmp xs) = set xs"
  using mset_js_sort [of cmp xs, THEN arg_cong, of set_mset] by simp

text \<open>With a comparator that is the difference of two keys, later minus earlier, the sort
  puts the greatest key first.\<close>

lemma sorted_insert_sorted:
  assumes "\<forall>a\<in>insert x (set ys). \<forall>b\<in>insert x (set ys). cmp a b = Some (k b - k a)"
    and "sorted_wrt (\<lambda>a b. k b \<le> k a) ys"
  shows "sorted_wrt (\<lambda>a b. k b \<le> k a) (insert_sorted cmp x ys)"
  using assms
proof (induction ys)
  case Nil
  then show ?case by simp
next
  case (Cons y ys)
  from Cons.prems(1) have c: "cmp x y = Some (k y - k x)" by simp
  show ?case
  proof (cases "k y \<le> k x")
    case True
    with c Cons.prems(2) show ?thesis by (auto intro: order_trans)
  next
    case False
    have "sorted_wrt (\<lambda>a b. k b \<le> k a) (insert_sorted cmp x ys)"
      using Cons.prems by (intro Cons.IH) auto
    with False c Cons.prems(2) show ?thesis
      by (auto simp: set_insert_sorted)
  qed
qed

lemma sorted_js_sort:
  assumes "\<forall>a\<in>set xs. \<forall>b\<in>set xs. cmp a b = Some (k b - k a)"
  shows "sorted_wrt (\<lambda>a b. k b \<le> k a) (js_sort cmp xs)"
  using assms
proof (induction xs)
  case Nil
  then show ?case by (simp add: js_sort_def)
next
  case (Cons x xs)
  have s: "sorted_wrt (\<lambda>a b. k b \<le> k a) (js_sort cmp xs)"
    using Cons.prems by (intro Cons.IH) auto
  have "js_sort cmp (x # xs) = insert_sorted cmp x (js_sort cmp xs)"
    by (simp add: js_sort_def)
  moreover have "sorted_wrt (\<lambda>a b. k b \<le> k a) (insert_sorted cmp x (js_sort cmp xs))"
    using Cons.prems s by (intro sorted_insert_sorted) (auto simp: set_js_sort)
  ultimately show ?case by simp
qed

text \<open>
  C9: for a user of the query that is not falsy and a readable document of the
  itineraries, whose values stored under that user all have a timestamp that \<open>Date\<close>
  parses, the handler answers with an array that holds exactly those values, each as
  often as it is stored, and in which the timestamp of every entry is not older than
  the timestamp of the entry after it.
\<close>

theorem listing_newest_first:
  assumes "truthy userId"
    and "files w (path_join h [dirname h, js ''evelodatabase'', js ''itineraries.json'']) = Some b"
    and "JSON_parse h b = Some allItineraries"
    and "\<not> nullish allItineraries"
    and "stored = Object_values (js_or (own_prop allItineraries (ToString userId)) (Obj []))"
    and "\<forall>x\<in>set stored. newDate h (getp x (js ''timestamp'')) \<noteq> None"
  shows "\<exists>arr. listItineraries h w userId = Ok arr
           \<and> mset arr = mset stored
           \<and> (\<forall>i. Suc i < length arr \<longrightarrow>
                 (\<exists>t1 t2. newDate h (getp (arr ! i) (js ''timestamp'')) = Some t1
                    \<and> newDate h (getp (arr ! Suc i) (js ''timestamp'')) = Some t2
                    \<and> t2 \<le> t1))"
proof -
  let ?k = "\<lambda>x. the (newDate h (getp x (js ''timestamp'')))"
  let ?arr = "js_sort (byTimestamp h) stored"
  have valid: "newDate h (getp x (js ''timestamp'')) = Some (?k x)" if "x \<in> set stored" for x
    using assms(6) that by auto
  have nn: "\<not> nullish x" if "x \<in> set stored" for x
  proof
    assume "nullish x"
    then have "newDate h (getp x (js ''timestamp'')) = None"
      by (auto simp: nullish_def)
    with valid [OF that] show False by simp
  qed
  then have s: "sortNewestFirst h stored = Inr ?arr"
    by (auto simp: sortNewestFirst_def)
  have v: "Object_values (js_or (own_prop allItineraries (ToString userId)) (Obj [])) = stored"
    by (simp only: assms(5))
  have s': "sortNewestFirst h
              (Object_values (js_or (own_prop allItineraries (ToString userId)) (Obj [])))
            = Inr ?arr"
    by (simp only: v s)
  have l: "listItineraries h w userId = Ok ?arr"
    using assms(1,4) by (simp add: listItineraries_def Let_def assms(2,3) s')
  have cmp: "\<forall>a\<in>set stored. \<forall>b\<in>set stored. byTimestamp h a b = Some (?k b - ?k a)"
  proof (intro ballI)
    fix a b assume "a \<in> set stored" "b \<in> set stored"
    then show "byTimestamp h a b = Some (?k b - ?k a)"
      using assms(6) by (auto simp: byTimestamp_def split: option.splits)
  qed
  have sorted: "sorted_wrt (\<lambda>a b. ?k b \<le> ?k a) ?arr"
    by (rule sorted_js_sort [OF cmp])
  have adj: "\<exists>t1 t2. newDate h (getp (?arr ! i) (js ''timestamp'')) = Some t1
                    \<and> newDate h (getp (?arr ! Suc i) (js ''timestamp'')) = Some t2
                    \<and> t2 \<le> t1"
    if i: "Suc i < length ?arr" for i
  proof -
    from i have "i < length ?arr" by simp
    then have "?arr ! i \<in> set ?arr" by (rule nth_mem)
    then have m1: "?arr ! i \<in> set stored" by (simp only: set_js_sort)
    from i have "?arr ! Suc i \<in> set ?arr" by (rule nth_mem)
    then have m2: "?arr ! Suc i \<in> set stored" by (simp only: set_js_sort)
    from sorted i have "?k (?arr ! Suc i) \<le> ?k (?arr ! i)"
      by (simp add: sorted_wrt_iff_nth_less)
    with valid [OF m1] valid [OF m2] show ?thesis by blast
  qed
  have "mset ?arr = mset stored" by (rule mset_js_sort)
  with l adj show ?thesis by blast
qed

text \<open>The two records of the user \<open>7\<close>, stored oldest first, are listed newest
  first.\<close>

theorem listing_newest_first_witness:
  "listItineraries example_host example_world (Str (js ''7''))
     = Ok [example_later_record, example_record]
   \<and> newDate example_host (getp example_later_record (js ''timestamp'')) = Some 1738368000000
   \<and> newDate example_host (getp example_record (js ''timestamp'')) = Some 1738195200000
   \<and> (\<exists>arr. listItineraries example_host example_world (Str (js ''7'')) = Ok arr
          \<and> mset arr = mset [example_record, example_later_record]
          \<and> (\<forall>i. Suc i < length arr \<longrightarrow>
                (\<exists>t1 t2. newDate example_host (getp (arr ! i) (js ''timestamp'')) = Some t1
                   \<and> newDate example_host (getp (arr ! Suc i) (js ''timestamp'')) = Some t2
                   \<and> t2 \<le> t1)))"
proof -
  have p: "path_join example_host [dirname example_host, js ''evelodatabase'',
             js ''itineraries.json''] = js ''/app/evelodatabase/itineraries.json''"
    by (simp add: example_host_def example_path_join_def startsWith_def js_def)
  have 1: "truthy (Str (js ''7''))" by simp
  have 2: "files example_world (path_join example_host [dirname example_host,
             js ''evelodatabase'', js ''itineraries.json'']) = Some [1]"
    by (simp add: p example_world_def)
  have 4: "\<not> nullish example_store" by (simp add: nullish_def example_store_def)
  have 5: "[example_record, example_later_record]
             = Object_values (js_or (own_prop example_store (ToString (Str (js ''7'')))) (Obj []))"
    by (simp add: example_store_def own_prop_def js_or_def Object_values_def)
  have t: "newDate example_host (getp example_later_record (js ''timestamp'')) = Some 1738368000000"
     "newDate example_host (getp example_record (js ''timestamp'')) = Some 1738195200000"
    by (simp_all add: example_later_record_def example_record_def example_host_def)
  have 6: "\<forall>x\<in>set [example_record, example_later_record].
             newDate example_host (getp x (js ''timestamp'')) \<noteq> None"
    by (simp add: t)
  have s: "js_sort (byTimestamp example_host) [example_record, example_later_record]
             = [example_later_record, example_record]"
    by (simp add: js_sort_def byTimestamp_def t)
  have vals: "Object_values (js_or (own_prop example_store (js ''7'')) (Obj []))
              = [example_record, example_later_record]"
    using 5 by simp
  have nn: "\<not> nullish example_record" "\<not> nullish example_later_record"
    by (simp_all add: nullish_def example_record_def example_later_record_def)
  have sn: "sortNewestFirst example_host [example_record, example_later_record]
              = Inr [example_later_record, example_record]"
    by (simp add: sortNewestFirst_def s nn)
  have l: "listItineraries example_host example_world (Str (js ''7''))
             = Ok [example_later_record, example_record]"
    using 4 by (simp add: listItineraries_def 2 example_parse Let_def vals sn)
  from listing_newest_first [OF 1 2 example_parse(1) 4 5 6] l t show ?thesis by blast
qed

end
